theory Spec2Isabelle
  imports Complex_Main "HOL-Library.Multiset"
begin

section \<open>Data model\<close>

text \<open>
  The Expense document of the Mongoose schema (\<^verbatim>\<open>expenseSchema\<close>). Identifiers are the
  strings that \<^verbatim>\<open>toString()\<close> gives for an ObjectId, dates are milliseconds since the
  epoch, and an amount is the exact rational value of the stored number. A path of
  the schema that is not required and has no default is an \<open>option\<close>. The option
  \<^verbatim>\<open>timestamps: true\<close> adds \<open>createdAt\<close> and \<open>updatedAt\<close>. A string is the list of its
  characters, each a code unit below 256.
\<close>

type_synonym objectId = string
type_synonym date = int

record vendor =
  name :: string
  contact :: "string option"
  address :: "string option"

record invoice =
  filename :: string
  originalName :: string
  path :: string
  size_bytes :: nat
  mimetype :: string

record expense =
  eid :: objectId
  title :: string
  category :: string
  amount :: rat
  currency :: string
  description :: string
  vendor :: vendor
  invoice :: invoice
  submittedBy :: objectId
  status :: string
  reviewedBy :: "objectId option"
  reviewComments :: "string option"
  submittedDate :: date
  reviewedDate :: "date option"
  expenseDate :: date
  createdAt :: date
  updatedAt :: date

text \<open>The identity that \<^verbatim>\<open>protect\<close> attaches to a request as \<^verbatim>\<open>req.user\<close>.\<close>

record user =
  uid :: objectId
  role :: string

text \<open>
  The file that \<^verbatim>\<open>upload.single('invoice')\<close> attaches as \<^verbatim>\<open>req.file\<close>. A request whose file
  the upload middleware refuses (media type, size) ends there and reaches neither the
  validators nor the handler.
\<close>

record upload_file =
  file_filename :: string
  file_originalname :: string
  file_path :: string
  file_size :: nat
  file_mimetype :: string

text \<open>
  A value of a request body: absent, a string, an array of strings, an object with the
  three vendor fields, or another scalar (a number, a boolean, \<^verbatim>\<open>null\<close>).
\<close>

datatype jvalue =
  Undefined
  | Text string
  | Array "string list"
  | Object "string option" "string option" "string option"
  | Other

text \<open>
  The body of a submission: the text fields of the multipart form, each present or
  absent; the vendor, which arrives as one text field or as the nested fields
  \<^verbatim>\<open>vendor[name]\<close>, \<^verbatim>\<open>vendor[contact]\<close>, \<^verbatim>\<open>vendor[address]\<close>; and a text field whose name
  is literally \<^verbatim>\<open>vendor.name\<close>, when the form has one.
\<close>

record submit_body =
  req_title :: "string option"
  req_category :: "string option"
  req_amount :: "string option"
  req_currency :: "string option"
  req_description :: "string option"
  req_vendor :: jvalue
  req_vendor_dot_name :: "string option"
  req_expenseDate :: "string option"

text \<open>The JSON body of a status review: the status is any value, the comments a string.\<close>

record review_body =
  req_status :: jvalue
  req_reviewComments :: "string option"

text \<open>
  The query of the administrative listing. The status is absent, a string, a value that
  the store reads as a condition on the status (the object of \<^verbatim>\<open>?status[$ne]=Approved\<close>, an
  array), given here by the statuses it selects, or a value that the store refuses. A
  page and a limit are strings that denote integers, and are given by the integer.
\<close>

datatype status_query =
  NoStatus
  | StatusText string
  | StatusCondition "string \<Rightarrow> bool"
  | StatusRefused

record list_query =
  q_status :: status_query
  q_page :: "int option"
  q_limit :: "int option"

text \<open>
  What the code takes from its libraries and its environment, as parameters: the clock,
  the identifier the store gives the next document, the cast of a request identifier to
  an ObjectId (\<open>None\<close> when the cast fails), the validators and parsers whose result the
  code only passes on, and whether a call to the store rejects for a reason of the
  store's own. \<open>isFloat\<close> is the validator with the route's option \<^verbatim>\<open>{ min: 0.01 }\<close>;
  \<open>parseFloat\<close> gives \<open>None\<close> for \<^verbatim>\<open>NaN\<close>, \<open>newDate\<close> for an invalid date, and \<open>JSON_parse\<close>
  when it throws.
\<close>

record platform =
  now :: date
  newObjectId :: objectId
  castObjectId :: "string \<Rightarrow> objectId option"
  isFloat :: "string \<Rightarrow> bool"
  parseFloat :: "string \<Rightarrow> rat option"
  isISO8601 :: "string \<Rightarrow> bool"
  newDate :: "string \<Rightarrow> date option"
  JSON_parse :: "string \<Rightarrow> jvalue option"
  findById_throws :: "string \<Rightarrow> bool"
  find_throws :: bool
  write_throws :: bool
  refetch_throws :: bool
  existsSync :: "string \<Rightarrow> bool"

text \<open>
  A response is the HTTP status and the JSON sent: the \<^verbatim>\<open>errors\<close> array of the validation
  stage (field and message of each error), a \<^verbatim>\<open>message\<close>, one document, a list of
  documents, the page of the administrative listing (expenses, totalPages, currentPage,
  total), a file download (stored path, name shown to the caller), or \<^verbatim>\<open>null\<close>.
  \<^verbatim>\<open>totalPages\<close> is \<open>None\<close> when it is not a finite number; \<^verbatim>\<open>currentPage\<close> is the number 1
  when the query has no page and the string of the query otherwise. Populating the
  submitter and the reviewer reads the User collection and changes no Expense field; the
  responses carry the stored documents.
\<close>

type_synonym verror = "string \<times> string"

datatype current_page = Number int | QueryString int

datatype payload =
  Errors "verror list"
  | Message string
  | Doc expense
  | Docs "expense list"
  | Page "expense list" "int option" current_page nat
  | Download string string
  | Null

type_synonym response = "nat \<times> payload"

datatype store_error = CastError | ValidationFailed | DuplicateKey | StoreFailure

section \<open>The store\<close>

text \<open>
  The collection is the list of its documents in insertion order. \<^verbatim>\<open>Expense.findById\<close>
  casts the identifier of the request and rejects when the cast fails.
\<close>

definition findById :: "expense list \<Rightarrow> objectId \<Rightarrow> expense option" where
  "findById db i = find (\<lambda>e. eid e = i) db"

definition Expense_findById :: "platform \<Rightarrow> expense list \<Rightarrow> string \<Rightarrow> store_error + expense option" where
  "Expense_findById P db i =
     (case castObjectId P i of
        None \<Rightarrow> Inl CastError
      | Some oid \<Rightarrow> if findById_throws P i then Inl StoreFailure else Inr (findById db oid))"

definition save :: "expense list \<Rightarrow> expense \<Rightarrow> expense list" where
  "save db e' = map (\<lambda>e. if eid e = eid e' then e' else e) db"

section \<open>Validators\<close>

text \<open>
  The validators of express-validator on a text value. An absent field is validated as
  the empty string. \<^verbatim>\<open>trim\<close> removes white space at both ends: the tab, the line feed,
  the vertical tab, the form feed, the carriage return, the space and the no-break
  space.
\<close>

definition whitespace :: "char \<Rightarrow> bool" where
  "whitespace c =
     (c \<in> set [CHR 0x09, CHR 0x0A, CHR 0x0B, CHR 0x0C, CHR 0x0D, CHR 0x20, CHR 0xA0])"

definition trim :: "string \<Rightarrow> string" where
  "trim s = rev (dropWhile whitespace (rev (dropWhile whitespace s)))"

definition toString :: "string option \<Rightarrow> string" where
  "toString v = (case v of None \<Rightarrow> [] | Some s \<Rightarrow> s)"

definition isLength :: "nat \<Rightarrow> nat \<Rightarrow> string \<Rightarrow> bool" where
  "isLength lo hi s = (lo \<le> length s \<and> length s \<le> hi)"

definition isIn :: "string list \<Rightarrow> string \<Rightarrow> bool" where
  "isIn vs s = (s \<in> set vs)"

definition notEmpty :: "string \<Rightarrow> bool" where
  "notEmpty s = (s \<noteq> [])"

text \<open>
  A validation chain after it has run on one value: the field, whether its validator
  passed, and the message. \<^verbatim>\<open>validationResult(req).array()\<close> holds one error for each
  that failed, in order.
\<close>

type_synonym chain = "string \<times> bool \<times> string"

definition validationResult :: "chain list \<Rightarrow> verror list" where
  "validationResult cs = map (\<lambda>(p, ok, m). (p, m)) (filter (\<lambda>(p, ok, m). \<not> ok) cs)"

section \<open>Access control (middleware/auth.js)\<close>

text \<open>A middleware answers (\<open>Some\<close> response) or calls \<^verbatim>\<open>next()\<close> (\<open>None\<close>).\<close>

definition authorize :: "string list \<Rightarrow> user option \<Rightarrow> response option" where
  "authorize roles u =
     (case u of
        None \<Rightarrow> Some (401, Message ''Not authorized'')
      | Some usr \<Rightarrow>
          if role usr \<notin> set roles
          then Some (403, Message (''User role '' @ role usr @ '' is not authorized to access this resource''))
          else None)"

text \<open>A load that rejects is caught and answered 500.\<close>

definition canAccessExpense :: "platform \<Rightarrow> expense list \<Rightarrow> user \<Rightarrow> string \<Rightarrow> response option" where
  "canAccessExpense P db u expenseId =
     (if role u = ''Manager'' \<or> role u = ''Finance'' then None
      else
        (case Expense_findById P db expenseId of
           Inl err \<Rightarrow> Some (500, Message ''Server error'')
         | Inr None \<Rightarrow> Some (404, Message ''Expense not found'')
         | Inr (Some e) \<Rightarrow>
             if submittedBy e \<noteq> uid u
             then Some (403, Message ''Not authorized to access this expense'')
             else None))"

section \<open>Status review: PUT /:id/status\<close>

definition review_statuses :: "string list" where
  "review_statuses = [''Approved'', ''Rejected'', ''Under Review'']"

text \<open>
  \<^verbatim>\<open>isIn\<close> on the status of the body: express-validator runs the validator on the value
  as a string, and on each element when the value is an array, so an empty array has
  nothing that fails. An absent status is the empty string; an object or another scalar
  is a string that is none of the three.
\<close>

definition status_results :: "jvalue \<Rightarrow> bool list" where
  "status_results v =
     (case v of
        Text s \<Rightarrow> [isIn review_statuses s]
      | Array xs \<Rightarrow> map (isIn review_statuses) xs
      | Undefined \<Rightarrow> [isIn review_statuses []]
      | _ \<Rightarrow> [False])"

text \<open>
  The two chains of the route. \<^verbatim>\<open>optional()\<close> skips the second chain when the field is
  absent; otherwise the field is trimmed in the body and then checked.
\<close>

definition review_chains :: "review_body \<Rightarrow> chain list" where
  "review_chains b =
     map (\<lambda>ok. (''status'', ok, ''Invalid status'')) (status_results (req_status b))
     @ [(''reviewComments'',
         (case req_reviewComments b of None \<Rightarrow> True | Some c \<Rightarrow> isLength 0 500 (trim c)),
         ''Review comments must be less than 500 characters'')]"

definition review_sanitize :: "review_body \<Rightarrow> review_body" where
  "review_sanitize b = b\<lparr>req_reviewComments := map_option trim (req_reviewComments b)\<rparr>"

text \<open>
  The assignments of the handler to the loaded document. A status that is not a string
  cannot be cast to the path, and the save of such a document rejects (\<open>None\<close>).
  \<^verbatim>\<open>if (reviewComments)\<close> holds for a present, non-empty string, and the schema trims
  \<open>reviewComments\<close> when it is set.
\<close>

definition reviewed :: "platform \<Rightarrow> user \<Rightarrow> string \<Rightarrow> string option \<Rightarrow> expense \<Rightarrow> expense" where
  "reviewed P u s comments e =
     (let e1 = e\<lparr>status := s,
                 reviewedBy := Some (uid u),
                 reviewedDate := Some (now P)\<rparr>
      in case comments of
           None \<Rightarrow> e1
         | Some c \<Rightarrow> if c \<noteq> [] then e1\<lparr>reviewComments := Some (trim c)\<rparr> else e1)"

definition apply_review :: "platform \<Rightarrow> user \<Rightarrow> review_body \<Rightarrow> expense \<Rightarrow> expense option" where
  "apply_review P u b e =
     (case req_status b of
        Text s \<Rightarrow> Some (reviewed P u s (req_reviewComments b) e)
      | _ \<Rightarrow> None)"

text \<open>
  Saving stamps \<open>updatedAt\<close> when the assignments have changed a path, and writes nothing
  when they have changed none.
\<close>

definition stamp :: "platform \<Rightarrow> expense \<Rightarrow> expense \<Rightarrow> expense" where
  "stamp P e e2 = (if e2 = e then e2 else e2\<lparr>updatedAt := now P\<rparr>)"

text \<open>
  The handler: validation result, load, assignments, save, and the document loaded again
  for the response. Every rejection after the validation is caught and answered 500.
\<close>

definition review_handler ::
  "platform \<Rightarrow> expense list \<Rightarrow> user \<Rightarrow> string \<Rightarrow> review_body \<Rightarrow> response \<times> expense list" where
  "review_handler P db u i body =
     (let errors = validationResult (review_chains body) in
      if errors \<noteq> [] then ((400, Errors errors), db)
      else
        (case Expense_findById P db i of
           Inl err \<Rightarrow> ((500, Message ''Server error''), db)
         | Inr None \<Rightarrow> ((404, Message ''Expense not found''), db)
         | Inr (Some e) \<Rightarrow>
             (case apply_review P u (review_sanitize body) e of
                None \<Rightarrow> ((500, Message ''Server error''), db)
              | Some e2 \<Rightarrow>
                  if write_throws P then ((500, Message ''Server error''), db)
                  else
                    (let db' = save db (stamp P e e2) in
                     if refetch_throws P then ((500, Message ''Server error''), db')
                     else
                       (case Expense_findById P db' i of
                          Inl err \<Rightarrow> ((500, Message ''Server error''), db')
                        | Inr None \<Rightarrow> ((200, Null), db')
                        | Inr (Some e') \<Rightarrow> ((200, Doc e'), db'))))))"

definition update_status_route ::
  "platform \<Rightarrow> expense list \<Rightarrow> user \<Rightarrow> string \<Rightarrow> review_body \<Rightarrow> response \<times> expense list" where
  "update_status_route P db u i body =
     (case authorize [''Manager'', ''Finance''] (Some u) of
        Some r \<Rightarrow> (r, db)
      | None \<Rightarrow> review_handler P db u i body)"

section \<open>Submission: POST /\<close>

definition categories :: "string list" where
  "categories = [''Travel'', ''Meals'', ''Office Supplies'', ''Transportation'', ''Accommodation'',
                 ''Entertainment'', ''Training'', ''Software'', ''Equipment'', ''Other'']"

definition currencies :: "string list" where
  "currencies = [''USD'', ''EUR'', ''GBP'', ''INR'', ''CAD'', ''AUD'']"

text \<open>
  The field \<^verbatim>\<open>vendor.name\<close> of the body. A field of the body whose name is literally
  \<^verbatim>\<open>vendor.name\<close> is read first; otherwise the field is the name of a structured vendor. A
  vendor that is a text field has no such property, so the field is absent then.
\<close>

definition vendor_name :: "submit_body \<Rightarrow> string option" where
  "vendor_name b =
     (case req_vendor_dot_name b of
        Some v \<Rightarrow> Some v
      | None \<Rightarrow> (case req_vendor b of Object n c a \<Rightarrow> n | _ \<Rightarrow> None))"

text \<open>The six chains of the route, in the order of the source. None reads the currency.\<close>

definition submit_chains :: "platform \<Rightarrow> submit_body \<Rightarrow> chain list" where
  "submit_chains P b =
     [(''title'', isLength 1 100 (trim (toString (req_title b))),
       ''Title is required and must be less than 100 characters''),
      (''category'', isIn categories (toString (req_category b)), ''Invalid category''),
      (''amount'', isFloat P (toString (req_amount b)), ''Amount must be greater than 0''),
      (''description'', isLength 1 500 (trim (toString (req_description b))),
       ''Description is required and must be less than 500 characters''),
      (''vendor.name'', notEmpty (trim (toString (vendor_name b))),
       ''Vendor name is required''),
      (''expenseDate'', isISO8601 P (toString (req_expenseDate b)),
       ''Valid expense date is required'')]"

text \<open>
  The sanitizers write the trimmed title, description and vendor name back into the body,
  the vendor name where it was read. The handler reads the body only when every chain
  has passed.
\<close>

definition submit_sanitize :: "submit_body \<Rightarrow> submit_body" where
  "submit_sanitize b =
     b\<lparr>req_title := Some (trim (toString (req_title b))),
       req_description := Some (trim (toString (req_description b))),
       req_vendor := (case req_vendor_dot_name b of
                        Some v \<Rightarrow> req_vendor b
                      | None \<Rightarrow>
                          (case req_vendor b of
                             Object n c a \<Rightarrow> Object (Some (trim (toString n))) c a
                           | v \<Rightarrow> v)),
       req_vendor_dot_name := map_option trim (req_vendor_dot_name b)\<rparr>"

text \<open>The object that the handler passes to \<^verbatim>\<open>Expense.create\<close>.\<close>

record expense_input =
  in_title :: "string option"
  in_category :: "string option"
  in_amount :: "rat option"
  in_currency :: string
  in_description :: "string option"
  in_vendor :: jvalue
  in_invoice :: invoice
  in_submittedBy :: objectId
  in_expenseDate :: "date option"

text \<open>
  Casting and validating against the schema: required paths are present (a required
  string is not empty), strings with \<^verbatim>\<open>trim\<close> are trimmed, the enumerations and the
  bounds hold. A path the input does not set takes its default: \<open>status\<close> is Pending,
  \<open>submittedDate\<close> and the timestamps are the current time; \<open>reviewedBy\<close>,
  \<open>reviewComments\<close> and \<open>reviewedDate\<close> have no default and stay absent.
\<close>

definition schema_doc :: "platform \<Rightarrow> expense_input \<Rightarrow> expense option" where
  "schema_doc P d =
     (case (in_title d, in_category d, in_amount d, in_description d, in_vendor d, in_expenseDate d) of
        (Some t, Some c, Some a, Some de, Object (Some n) co ad, Some ed) \<Rightarrow>
          if trim t \<noteq> [] \<and> length (trim t) \<le> 100
             \<and> c \<in> set categories
             \<and> 1 / 100 \<le> a
             \<and> in_currency d \<in> set currencies
             \<and> trim de \<noteq> [] \<and> length (trim de) \<le> 500
             \<and> trim n \<noteq> []
             \<and> filename (in_invoice d) \<noteq> [] \<and> originalName (in_invoice d) \<noteq> []
             \<and> path (in_invoice d) \<noteq> [] \<and> mimetype (in_invoice d) \<noteq> []
          then Some \<lparr>eid = newObjectId P, title = trim t, category = c, amount = a,
                      currency = in_currency d, description = trim de,
                      vendor = \<lparr>name = trim n, contact = map_option trim co,
                                 address = map_option trim ad\<rparr>,
                      invoice = in_invoice d, submittedBy = in_submittedBy d,
                      status = ''Pending'', reviewedBy = None, reviewComments = None,
                      submittedDate = now P, reviewedDate = None, expenseDate = ed,
                      createdAt = now P, updatedAt = now P\<rparr>
          else None
      | _ \<Rightarrow> None)"

definition Expense_create :: "platform \<Rightarrow> expense list \<Rightarrow> expense_input \<Rightarrow> store_error + expense" where
  "Expense_create P db d =
     (case schema_doc P d of
        None \<Rightarrow> Inl ValidationFailed
      | Some e \<Rightarrow>
          if write_throws P then Inl StoreFailure
          else if findById db (eid e) \<noteq> None then Inl DuplicateKey
          else Inr e)"

definition submit_input :: "platform \<Rightarrow> user \<Rightarrow> submit_body \<Rightarrow> jvalue \<Rightarrow> upload_file \<Rightarrow> expense_input" where
  "submit_input P u b vendorData f =
     \<lparr>in_title = req_title b,
      in_category = req_category b,
      in_amount = parseFloat P (toString (req_amount b)),
      in_currency = (case req_currency b of None \<Rightarrow> ''USD'' | Some c \<Rightarrow> c),
      in_description = req_description b,
      in_vendor = vendorData,
      in_invoice = \<lparr>filename = file_filename f, originalName = file_originalname f,
                    path = file_path f, size_bytes = file_size f, mimetype = file_mimetype f\<rparr>,
      in_submittedBy = uid u,
      in_expenseDate = newDate P (toString (req_expenseDate b))\<rparr>"

text \<open>
  \<^verbatim>\<open>typeof vendor === 'string' ? JSON.parse(vendor) : vendor\<close>; \<open>None\<close> when
  \<^verbatim>\<open>JSON.parse\<close> throws.
\<close>

definition parse_vendor :: "platform \<Rightarrow> jvalue \<Rightarrow> jvalue option" where
  "parse_vendor P v = (case v of Text s \<Rightarrow> JSON_parse P s | _ \<Rightarrow> Some v)"

definition submit_handler ::
  "platform \<Rightarrow> expense list \<Rightarrow> user \<Rightarrow> submit_body \<Rightarrow> upload_file option \<Rightarrow> response \<times> expense list" where
  "submit_handler P db u body file =
     (let errors = validationResult (submit_chains P body) in
      if errors \<noteq> [] then ((400, Errors errors), db)
      else
        (case file of
           None \<Rightarrow> ((400, Message ''Invoice file is required''), db)
         | Some f \<Rightarrow>
             let b = submit_sanitize body in
             (case parse_vendor P (req_vendor b) of
                None \<Rightarrow> ((400, Message ''Invalid vendor data format''), db)
              | Some vendorData \<Rightarrow>
                  (case Expense_create P db (submit_input P u b vendorData f) of
                     Inl err \<Rightarrow> ((500, Message ''Server error during expense submission''), db)
                   | Inr e \<Rightarrow> ((201, Doc e), db @ [e])))))"

definition submit_route ::
  "platform \<Rightarrow> expense list \<Rightarrow> user \<Rightarrow> submit_body \<Rightarrow> upload_file option \<Rightarrow> response \<times> expense list" where
  "submit_route P db u body file =
     (case authorize [''Employee''] (Some u) of
        Some r \<Rightarrow> (r, db)
      | None \<Rightarrow> submit_handler P db u body file)"

section \<open>Listing and retrieval\<close>

text \<open>
  The queries of the store. \<^verbatim>\<open>sort({ submittedDate: -1 })\<close> is a stable sort, newest first.
  The store rejects a negative skip; a limit of 0 is no limit, and a negative limit
  counts as its absolute value.
\<close>

definition newest_first :: "expense list \<Rightarrow> expense list" where
  "newest_first xs = sort_key (\<lambda>e. - submittedDate e) xs"

definition skip_limit :: "int \<Rightarrow> int \<Rightarrow> expense list \<Rightarrow> store_error + expense list" where
  "skip_limit skip lmt xs =
     (if skip < 0 then Inl StoreFailure
      else Inr (let ys = drop (nat skip) xs in if lmt = 0 then ys else take (nat \<bar>lmt\<bar>) ys))"

text \<open>
  The filter of the listing: \<^verbatim>\<open>if (status) query.status = status\<close>. A string that is not
  empty selects the expenses of exactly that status, a condition those it selects; an
  absent or empty status selects all. \<open>None\<close> when the store refuses the value.
\<close>

definition status_filter :: "status_query \<Rightarrow> (string \<Rightarrow> bool) option" where
  "status_filter q =
     (case q of
        NoStatus \<Rightarrow> Some (\<lambda>s. True)
      | StatusText t \<Rightarrow> Some (if t \<noteq> [] then (\<lambda>s. s = t) else (\<lambda>s. True))
      | StatusCondition c \<Rightarrow> Some c
      | StatusRefused \<Rightarrow> None)"

definition matching :: "(string \<Rightarrow> bool) \<Rightarrow> expense list \<Rightarrow> expense list" where
  "matching sel db = filter (\<lambda>e. sel (status e)) db"

text \<open>
  \<^verbatim>\<open>Math.ceil(total / limit)\<close>; a division by 0 is not a finite number and is sent as
  \<^verbatim>\<open>null\<close> (\<open>None\<close>).
\<close>

definition ceil_div :: "nat \<Rightarrow> int \<Rightarrow> int option" where
  "ceil_div n lmt = (if lmt = 0 then None else Some (- ((- int n) div lmt)))"

definition my_expenses_route :: "platform \<Rightarrow> expense list \<Rightarrow> user \<Rightarrow> response \<times> expense list" where
  "my_expenses_route P db u =
     (case authorize [''Employee''] (Some u) of
        Some r \<Rightarrow> (r, db)
      | None \<Rightarrow>
          if find_throws P then ((500, Message ''Server error''), db)
          else ((200, Docs (newest_first (filter (\<lambda>e. submittedBy e = uid u) db))), db))"

definition list_handler :: "platform \<Rightarrow> expense list \<Rightarrow> list_query \<Rightarrow> response \<times> expense list" where
  "list_handler P db q =
     (let page = (case q_page q of None \<Rightarrow> 1 | Some p \<Rightarrow> p);
          limit = (case q_limit q of None \<Rightarrow> 10 | Some l \<Rightarrow> l)
      in
        if find_throws P then ((500, Message ''Server error''), db)
        else
          (case status_filter (q_status q) of
             None \<Rightarrow> ((500, Message ''Server error''), db)
           | Some sel \<Rightarrow>
               (case skip_limit ((page - 1) * limit) (limit * 1) (newest_first (matching sel db)) of
                  Inl err \<Rightarrow> ((500, Message ''Server error''), db)
                | Inr expenses \<Rightarrow>
                    let total = length (matching sel db) in
                    ((200, Page expenses (ceil_div total limit)
                             (case q_page q of None \<Rightarrow> Number 1 | Some p \<Rightarrow> QueryString p)
                             total), db))))"

definition list_route :: "platform \<Rightarrow> expense list \<Rightarrow> user \<Rightarrow> list_query \<Rightarrow> response \<times> expense list" where
  "list_route P db u q =
     (case authorize [''Manager'', ''Finance''] (Some u) of
        Some r \<Rightarrow> (r, db)
      | None \<Rightarrow> list_handler P db q)"

definition get_expense_route :: "platform \<Rightarrow> expense list \<Rightarrow> user \<Rightarrow> string \<Rightarrow> response \<times> expense list" where
  "get_expense_route P db u i =
     (case canAccessExpense P db u i of
        Some r \<Rightarrow> (r, db)
      | None \<Rightarrow>
          (case Expense_findById P db i of
             Inl err \<Rightarrow> ((500, Message ''Server error''), db)
           | Inr None \<Rightarrow> ((404, Message ''Expense not found''), db)
           | Inr (Some e) \<Rightarrow> ((200, Doc e), db)))"

definition download_invoice_route :: "platform \<Rightarrow> expense list \<Rightarrow> user \<Rightarrow> string \<Rightarrow> response \<times> expense list" where
  "download_invoice_route P db u i =
     (case canAccessExpense P db u i of
        Some r \<Rightarrow> (r, db)
      | None \<Rightarrow>
          (case Expense_findById P db i of
             Inl err \<Rightarrow> ((500, Message ''Server error''), db)
           | Inr None \<Rightarrow> ((404, Message ''Expense not found''), db)
           | Inr (Some e) \<Rightarrow>
               if \<not> existsSync P (path (invoice e))
               then ((404, Message ''Invoice file not found''), db)
               else ((200, Download (path (invoice e)) (originalName (invoice e))), db)))"

section \<open>The exposed operations\<close>

text \<open>
  The six routes of the router, each called by an authenticated user, and a run of calls
  against the store, each call with the platform of its moment.
\<close>

datatype request =
  Submit submit_body "upload_file option"
  | MyExpenses
  | ListExpenses list_query
  | GetExpense string
  | UpdateStatus string review_body
  | DownloadInvoice string

fun handle :: "platform \<Rightarrow> expense list \<Rightarrow> user \<Rightarrow> request \<Rightarrow> response \<times> expense list" where
  "handle P db u (Submit body file) = submit_route P db u body file"
| "handle P db u MyExpenses = my_expenses_route P db u"
| "handle P db u (ListExpenses q) = list_route P db u q"
| "handle P db u (GetExpense i) = get_expense_route P db u i"
| "handle P db u (UpdateStatus i body) = update_status_route P db u i body"
| "handle P db u (DownloadInvoice i) = download_invoice_route P db u i"

fun run :: "expense list \<Rightarrow> (platform \<times> user \<times> request) list \<Rightarrow> expense list" where
  "run db [] = db"
| "run db ((P, u, r) # calls) = run (snd (handle P db u r)) calls"

section \<open>Example data\<close>

text \<open>
  The cast of the example platform takes the 24 hexadecimal digits of an ObjectId, in
  either case, to their lower-case spelling.
\<close>

definition hexdigit :: "char \<Rightarrow> bool" where
  "hexdigit c = (c \<in> set ''0123456789abcdefABCDEF'')"

definition lower_hex :: "char \<Rightarrow> char" where
  "lower_hex c =
     (case map_of [(CHR ''A'', CHR ''a''), (CHR ''B'', CHR ''b''), (CHR ''C'', CHR ''c''),
                   (CHR ''D'', CHR ''d''), (CHR ''E'', CHR ''e''), (CHR ''F'', CHR ''f'')] c of
        Some d \<Rightarrow> d
      | None \<Rightarrow> c)"

definition hex24 :: "string \<Rightarrow> objectId option" where
  "hex24 s = (if length s = 24 \<and> list_all hexdigit s then Some (map lower_hex s) else None)"

abbreviation e1_id :: objectId where "e1_id \<equiv> ''64b7f0a2c3d4e5f601234561''"
abbreviation e2_id :: objectId where "e2_id \<equiv> ''64b7f0a2c3d4e5f601234562''"
abbreviation e3_id :: objectId where "e3_id \<equiv> ''64b7f0a2c3d4e5f601234563''"
abbreviation e4_id :: objectId where "e4_id \<equiv> ''64b7f0a2c3d4e5f601234564''"
abbreviation e9_id :: objectId where "e9_id \<equiv> ''64b7f0a2c3d4e5f601234569''"
abbreviation alice_id :: objectId where "alice_id \<equiv> ''64b7f0a2c3d4e5f6012345a1''"
abbreviation bob_id :: objectId where "bob_id \<equiv> ''64b7f0a2c3d4e5f6012345a2''"
abbreviation manager_id :: objectId where "manager_id \<equiv> ''64b7f0a2c3d4e5f6012345a3''"
abbreviation finance_id :: objectId where "finance_id \<equiv> ''64b7f0a2c3d4e5f6012345a4''"

definition P0 :: platform where
  "P0 = \<lparr>now = 1700000000000, newObjectId = e2_id, castObjectId = hex24,
          isFloat = (\<lambda>s. s = ''42.50''),
          parseFloat = (\<lambda>s. if s = ''42.50'' then Some (85 / 2) else None),
          isISO8601 = (\<lambda>s. s = ''2024-01-15''),
          newDate = (\<lambda>s. if s = ''2024-01-15'' then Some 1705276800000 else None),
          JSON_parse = (\<lambda>s. if s = ''{\"name\":\"Acme\"}'' then Some (Object (Some ''Acme'') None None) else None),
          findById_throws = (\<lambda>i. False), find_throws = False, write_throws = False,
          refetch_throws = False, existsSync = (\<lambda>p. True)\<rparr>"

definition alice :: user where
  "alice = \<lparr>uid = alice_id, role = ''Employee''\<rparr>"

definition bob :: user where
  "bob = \<lparr>uid = bob_id, role = ''Employee''\<rparr>"

definition manager :: user where
  "manager = \<lparr>uid = manager_id, role = ''Manager''\<rparr>"

definition finance :: user where
  "finance = \<lparr>uid = finance_id, role = ''Finance''\<rparr>"

definition e1 :: expense where
  "e1 = \<lparr>eid = e1_id, title = ''Taxi'', category = ''Travel'', amount = 12, currency = ''EUR'',
          description = ''Airport'',
          vendor = \<lparr>name = ''Cab Co'', contact = None, address = None\<rparr>,
          invoice = \<lparr>filename = ''invoice-1-1.pdf'', originalName = ''taxi.pdf'',
                      path = ''uploads/invoices/invoice-1-1.pdf'', size_bytes = 1000,
                      mimetype = ''application/pdf''\<rparr>,
          submittedBy = alice_id, status = ''Pending'', reviewedBy = None,
          reviewComments = Some ''see receipt'', submittedDate = 1600000000000, reviewedDate = None,
          expenseDate = 1590000000000, createdAt = 1600000000000, updatedAt = 1600000000000\<rparr>"

definition e1_approved :: expense where
  "e1_approved = e1\<lparr>status := ''Approved'', reviewedBy := Some manager_id,
                     reviewedDate := Some 1650000000000\<rparr>"

definition e1_rejected :: expense where
  "e1_rejected = e1\<lparr>status := ''Rejected'', reviewedBy := Some manager_id,
                     reviewedDate := Some 1650000000000\<rparr>"

definition e1_under_review :: expense where
  "e1_under_review = e1\<lparr>status := ''Under Review'', reviewedBy := Some manager_id,
                         reviewedDate := Some 1650000000000\<rparr>"

definition body0 :: submit_body where
  "body0 = \<lparr>req_title = Some ''Flight'', req_category = Some ''Travel'', req_amount = Some ''42.50'',
             req_currency = None, req_description = Some ''Conference'',
             req_vendor = Object (Some ''Acme'') None None, req_vendor_dot_name = None,
             req_expenseDate = Some ''2024-01-15''\<rparr>"

definition file0 :: upload_file where
  "file0 = \<lparr>file_filename = ''invoice-2-2.pdf'', file_originalname = ''flight.pdf'',
             file_path = ''uploads/invoices/invoice-2-2.pdf'', file_size = 2097152,
             file_mimetype = ''application/pdf''\<rparr>"

definition e2 :: expense where
  "e2 = \<lparr>eid = e2_id, title = ''Flight'', category = ''Travel'', amount = 85 / 2, currency = ''USD'',
          description = ''Conference'',
          vendor = \<lparr>name = ''Acme'', contact = None, address = None\<rparr>,
          invoice = \<lparr>filename = ''invoice-2-2.pdf'', originalName = ''flight.pdf'',
                      path = ''uploads/invoices/invoice-2-2.pdf'', size_bytes = 2097152,
                      mimetype = ''application/pdf''\<rparr>,
          submittedBy = alice_id, status = ''Pending'', reviewedBy = None,
          reviewComments = None, submittedDate = 1700000000000, reviewedDate = None,
          expenseDate = 1705276800000, createdAt = 1700000000000, updatedAt = 1700000000000\<rparr>"

definition e3 :: expense where
  "e3 = e1\<lparr>eid := e3_id, submittedDate := 1650000000000\<rparr>"

definition e4 :: expense where
  "e4 = e1\<lparr>eid := e4_id, submittedDate := 1620000000000, status := ''Approved''\<rparr>"

section \<open>Properties of the store, the validators and the middleware\<close>

lemma validationResult_set:
  "set (validationResult cs) = {(p, m). (p, False, m) \<in> set cs}"
  by (induction cs) (auto simp: validationResult_def)

lemma validationResult_all:
  "\<forall>(p, ok, m) \<in> set cs. \<not> ok \<longrightarrow> (p, m) \<in> set (validationResult cs)"
  by (auto simp: validationResult_set)

lemma validationResult_length:
  "length (validationResult cs) = length (filter (\<lambda>(p, ok, m). \<not> ok) cs)"
  by (simp add: validationResult_def)

lemma validationResult_append:
  "validationResult (cs @ ds) = validationResult cs @ validationResult ds"
  by (simp add: validationResult_def)

lemma findById_Some_eid: "findById db i = Some e \<Longrightarrow> eid e = i \<and> e \<in> set db"
  unfolding findById_def by (induction db) (auto split: if_splits)

lemma findById_save_same:
  "findById db i = Some e \<Longrightarrow> eid e' = i \<Longrightarrow> findById (save db e') i = Some e'"
  unfolding findById_def save_def by (induction db) (auto split: if_splits)

lemma findById_save_other:
  "eid e' \<noteq> j \<Longrightarrow> findById (save db e') j = findById db j"
  unfolding findById_def save_def by (induction db) (auto split: if_splits)

lemma findById_append:
  "findById db i = Some e \<Longrightarrow> findById (db @ [x]) i = Some e"
  unfolding findById_def by (induction db) (auto split: if_splits)

text \<open>What a load that returns says about the cast and the store.\<close>

lemma Expense_findById_Inr:
  "Expense_findById P db i = Inr r \<longleftrightarrow>
   (\<exists>oid. castObjectId P i = Some oid \<and> \<not> findById_throws P i \<and> r = findById db oid)"
  by (auto simp: Expense_findById_def split: option.splits)

lemma trim_Nil: "trim [] = []"
  by (simp add: trim_def)

lemma trim_idem: "trim (trim s) = trim s"
proof -
  define t where "t = dropWhile whitespace s"
  define u where "u = dropWhile whitespace (rev t)"
  have head: "rev u = [] \<or> \<not> whitespace (hd (rev u))"
  proof (cases "u = []")
    case True
    then show ?thesis by simp
  next
    case False
    then obtain x where "x \<in> set (rev t)" and "\<not> whitespace x"
      unfolding u_def by (auto simp: dropWhile_eq_Nil_conv)
    then have "last u = last (rev t)"
      unfolding u_def by (rule dropWhile_last)
    moreover have "t \<noteq> []" using False unfolding u_def by auto
    moreover from this have "\<not> whitespace (hd t)"
      unfolding t_def by (rule hd_dropWhile)
    ultimately show ?thesis using False by (simp add: hd_rev last_rev)
  qed
  then have "dropWhile whitespace (rev u) = rev u"
    by (simp add: dropWhile_eq_self_iff)
  moreover have "dropWhile whitespace u = u"
    unfolding u_def by simp
  ultimately show ?thesis
    unfolding trim_def t_def [symmetric] u_def [symmetric] by simp
qed

lemma trim_simps:
  "trim ''Flight'' = ''Flight''" "trim ''Conference'' = ''Conference''" "trim ''Acme'' = ''Acme''"
  by (simp_all add: trim_def whitespace_def)

text \<open>The no-break space is trimmed like the space.\<close>

lemma trim_no_break_space:
  "trim [CHR 0xA0] = []" "trim (CHR 0xA0 # ''ok'' @ [CHR 0x20, CHR 0xA0]) = ''ok''"
  by (simp_all add: trim_def whitespace_def)

lemma authorize_reviewer:
  "role u = ''Manager'' \<or> role u = ''Finance'' \<Longrightarrow>
   authorize [''Manager'', ''Finance''] (Some u) = None"
  by (auto simp: authorize_def)

lemma authorize_employee:
  "role u = ''Employee'' \<Longrightarrow> authorize [''Employee''] (Some u) = None"
  by (simp add: authorize_def)

text \<open>The example platform and its cast at the identifiers of the examples.\<close>

lemma P0_simps:
  "now P0 = 1700000000000" "newObjectId P0 = e2_id" "castObjectId P0 = hex24"
  "findById_throws P0 i = False" "find_throws P0 = False" "write_throws P0 = False"
  "refetch_throws P0 = False" "existsSync P0 p = True"
  by (simp_all add: P0_def)

lemma hex24_simps:
  "hex24 e1_id = Some e1_id" "hex24 e9_id = Some e9_id"
  "hex24 ''64B7F0A2C3D4E5F601234561'' = Some e1_id" "hex24 ''nope'' = None"
  by (simp_all add: hex24_def hexdigit_def lower_hex_def)

section \<open>Properties of the status review\<close>

lemma Pending_not_review: "''Pending'' \<notin> set review_statuses"
  by (simp add: review_statuses_def)

lemma review_chains_pass:
  "validationResult (review_chains body) = [] \<longleftrightarrow>
   False \<notin> set (status_results (req_status body))
   \<and> (case req_reviewComments body of None \<Rightarrow> True | Some c \<Rightarrow> length (trim c) \<le> 500)"
proof -
  have "validationResult (map (\<lambda>ok. (''status'', ok, ''Invalid status'')) rs) = []
        \<longleftrightarrow> False \<notin> set rs" for rs
    by (induction rs) (auto simp: validationResult_def)
  then show ?thesis
    by (auto simp: review_chains_def validationResult_append isLength_def
        validationResult_def split: option.splits)
qed

lemma status_results_Text: "status_results (Text t) = [t \<in> set review_statuses]"
  by (simp add: status_results_def isIn_def)

lemma review_status_invalid_errors:
  "False \<in> set (status_results (req_status body)) \<Longrightarrow>
   (''status'', ''Invalid status'') \<in> set (validationResult (review_chains body))"
  by (auto simp: validationResult_set review_chains_def)

lemma req_status_sanitize: "req_status (review_sanitize b) = req_status b"
  by (simp add: review_sanitize_def)

lemma apply_review_eq:
  "apply_review P u b e = Some d \<longleftrightarrow>
   (\<exists>s. req_status b = Text s \<and> d = reviewed P u s (req_reviewComments b) e)"
  by (auto simp: apply_review_def split: jvalue.splits)

lemma reviewed_sets:
  "status (reviewed P u s rc e) = s" "reviewedBy (reviewed P u s rc e) = Some (uid u)"
  "reviewedDate (reviewed P u s rc e) = Some (now P)"
  by (simp_all add: reviewed_def Let_def split: option.splits)

lemma reviewed_comments:
  "reviewComments (reviewed P u s (map_option trim rc) e)
   = (case rc of
        None \<Rightarrow> reviewComments e
      | Some c \<Rightarrow> if trim c \<noteq> [] then Some (trim c) else reviewComments e)"
  by (simp add: reviewed_def Let_def trim_idem split: option.splits)

lemma reviewed_frame:
  "eid (reviewed P u s rc e) = eid e" "title (reviewed P u s rc e) = title e"
  "category (reviewed P u s rc e) = category e" "amount (reviewed P u s rc e) = amount e"
  "currency (reviewed P u s rc e) = currency e"
  "description (reviewed P u s rc e) = description e"
  "vendor (reviewed P u s rc e) = vendor e" "invoice (reviewed P u s rc e) = invoice e"
  "submittedBy (reviewed P u s rc e) = submittedBy e"
  "submittedDate (reviewed P u s rc e) = submittedDate e"
  "expenseDate (reviewed P u s rc e) = expenseDate e"
  "createdAt (reviewed P u s rc e) = createdAt e"
  by (simp_all add: reviewed_def Let_def split: option.splits)

lemma eid_apply_review: "apply_review P u b e = Some d \<Longrightarrow> eid d = eid e"
  by (auto simp: apply_review_eq reviewed_frame)

lemma eid_stamp: "eid (stamp P e d) = eid d"
  by (simp add: stamp_def)

lemma stamp_fields:
  "status (stamp P e d) = status d" "reviewedBy (stamp P e d) = reviewedBy d"
  "reviewedDate (stamp P e d) = reviewedDate d"
  "reviewComments (stamp P e d) = reviewComments d"
  "title (stamp P e d) = title d" "category (stamp P e d) = category d"
  "amount (stamp P e d) = amount d" "currency (stamp P e d) = currency d"
  "description (stamp P e d) = description d" "vendor (stamp P e d) = vendor d"
  "invoice (stamp P e d) = invoice d" "submittedBy (stamp P e d) = submittedBy d"
  "submittedDate (stamp P e d) = submittedDate d" "expenseDate (stamp P e d) = expenseDate d"
  "createdAt (stamp P e d) = createdAt d"
  by (simp_all add: stamp_def)

text \<open>The document is found again, under the identifier of the request, after its save.\<close>

lemma refetch_saved:
  assumes "Expense_findById P db i = Inr (Some e)" and "eid e' = eid e"
  shows "Expense_findById P (save db e') i = Inr (Some e')"
proof -
  from assms(1) obtain oid where c: "castObjectId P i = Some oid"
    and t: "\<not> findById_throws P i" and f: "findById db oid = Some e"
    by (auto simp: Expense_findById_Inr)
  from f have "eid e = oid" by (simp add: findById_Some_eid)
  with assms(2) f have "findById (save db e') oid = Some e'"
    by (simp add: findById_save_same)
  with c t show ?thesis by (simp add: Expense_findById_def)
qed

text \<open>A review answered 200 with a document has loaded, updated and saved that document.\<close>

lemma review_handler_success:
  assumes "review_handler P db u i body = ((200, Doc e'), db')"
  shows "\<exists>e d. Expense_findById P db i = Inr (Some e)
           \<and> validationResult (review_chains body) = []
           \<and> apply_review P u (review_sanitize body) e = Some d
           \<and> e' = stamp P e d
           \<and> db' = save db e' \<and> Expense_findById P db' i = Inr (Some e')"
proof -
  from assms have v: "validationResult (review_chains body) = []"
    by (auto simp: review_handler_def Let_def split: if_splits)
  from assms v obtain e where e: "Expense_findById P db i = Inr (Some e)"
    by (auto simp: review_handler_def Let_def split: sum.splits option.splits)
  from assms v e obtain d where d: "apply_review P u (review_sanitize body) e = Some d"
    by (auto simp: review_handler_def Let_def split: option.splits)
  have "eid (stamp P e d) = eid e" using d by (simp add: eid_stamp eid_apply_review)
  with e have f: "Expense_findById P (save db (stamp P e d)) i = Inr (Some (stamp P e d))"
    by (rule refetch_saved)
  from assms v e d f have "e' = stamp P e d \<and> db' = save db (stamp P e d)"
    by (auto simp: review_handler_def Let_def split: if_splits)
  with e v d f show ?thesis by auto
qed

text \<open>A valid review of a document that is there, on a store that works, is answered 200.\<close>

lemma review_handler_accepts:
  assumes "Expense_findById P db i = Inr (Some e)"
      and "validationResult (review_chains body) = []"
      and "apply_review P u (review_sanitize body) e = Some d"
      and "\<not> write_throws P" "\<not> refetch_throws P"
  shows "review_handler P db u i body
         = ((200, Doc (stamp P e d)), save db (stamp P e d))"
proof -
  have "eid (stamp P e d) = eid e" using assms(3) by (simp add: eid_stamp eid_apply_review)
  with assms(1) have f: "Expense_findById P (save db (stamp P e d)) i = Inr (Some (stamp P e d))"
    by (rule refetch_saved)
  show ?thesis using assms f
    by (simp add: review_handler_def Let_def)
qed

lemma update_status_route_success:
  assumes "update_status_route P db u i body = ((200, Doc e'), db')"
  shows "review_handler P db u i body = ((200, Doc e'), db')"
  using assms by (auto simp: update_status_route_def authorize_def split: if_splits)

text \<open>The store after a review: as before, or with the reviewed document saved.\<close>

lemma review_handler_store:
  "snd (review_handler P db u j b) = db
   \<or> (\<exists>e0 d. Expense_findById P db j = Inr (Some e0)
         \<and> validationResult (review_chains b) = []
         \<and> apply_review P u (review_sanitize b) e0 = Some d
         \<and> snd (review_handler P db u j b) = save db (stamp P e0 d))"
  by (auto simp: review_handler_def Let_def split: option.splits sum.splits)

lemma update_status_route_store:
  "snd (update_status_route P db u j b) = db
   \<or> (\<exists>e0 d. Expense_findById P db j = Inr (Some e0)
         \<and> validationResult (review_chains b) = []
         \<and> apply_review P u (review_sanitize b) e0 = Some d
         \<and> snd (update_status_route P db u j b) = save db (stamp P e0 d))"
  using review_handler_store [of P db u j b]
  by (auto simp: update_status_route_def split: option.splits)

subsection \<open>No check of the current status\<close>

text \<open>
  C1 as stated fails: the handler never reads the current status. An Approved expense
  reviewed by a Finance user with the target Rejected is answered 200 and is Rejected in
  the store afterwards.
\<close>

theorem review_terminal_counterexample:
  "status e1_approved = ''Approved''
   \<and> findById [e1_approved] e1_id = Some e1_approved
   \<and> fst (update_status_route P0 [e1_approved] finance e1_id
            \<lparr>req_status = Text ''Rejected'', req_reviewComments = None\<rparr>)
      = (200, Doc (e1_approved\<lparr>status := ''Rejected'', reviewedBy := Some finance_id,
                     reviewedDate := Some 1700000000000, updatedAt := 1700000000000\<rparr>))
   \<and> map_option status
        (findById (snd (update_status_route P0 [e1_approved] finance e1_id
                          \<lparr>req_status = Text ''Rejected'', req_reviewComments = None\<rparr>)) e1_id)
      = Some ''Rejected''"
  by (simp add: update_status_route_def authorize_def finance_def review_handler_def
      validationResult_def review_chains_def status_results_def isIn_def review_statuses_def
      Expense_findById_def P0_simps hex24_simps findById_def e1_approved_def e1_def
      apply_review_def reviewed_def review_sanitize_def save_def stamp_def)

text \<open>
  C1, amended. The review does not depend on the current status: for an expense that the
  load finds, whatever its status (Approved and Rejected included), a request of a
  Manager or Finance user with a target among Approved, Rejected, Under Review and valid
  comments is answered 200 when the store works, and the stored status is then the
  target.
\<close>

theorem review_from_any_status:
  assumes "role u = ''Manager'' \<or> role u = ''Finance''"
      and "Expense_findById P db i = Inr (Some e)"
      and "t \<in> set review_statuses"
      and "case rc of None \<Rightarrow> True | Some c \<Rightarrow> length (trim c) \<le> 500"
      and "\<not> write_throws P" "\<not> refetch_throws P"
  shows "\<exists>e' db'. update_status_route P db u i \<lparr>req_status = Text t, req_reviewComments = rc\<rparr>
                     = ((200, Doc e'), db')
                 \<and> status e' = t \<and> Expense_findById P db' i = Inr (Some e')"
proof -
  let ?b = "\<lparr>req_status = Text t, req_reviewComments = rc\<rparr>"
  let ?d = "reviewed P u t (req_reviewComments (review_sanitize ?b)) e"
  let ?e = "stamp P e ?d"
  have v: "validationResult (review_chains ?b) = []"
    using assms(3,4) by (simp add: review_chains_pass status_results_Text)
  have a: "apply_review P u (review_sanitize ?b) e = Some ?d"
    by (simp add: apply_review_def review_sanitize_def)
  have r: "update_status_route P db u i ?b = ((200, Doc ?e), save db ?e)"
    using review_handler_accepts [OF assms(2) v a assms(5,6)] assms(1)
    by (simp add: update_status_route_def authorize_reviewer)
  have "eid ?e = eid e" by (simp add: eid_stamp reviewed_frame)
  with assms(2) have "Expense_findById P (save db ?e) i = Inr (Some ?e)"
    by (rule refetch_saved)
  moreover have "status ?e = t"
    by (simp add: stamp_fields reviewed_sets)
  ultimately show ?thesis using r by blast
qed

theorem review_from_any_status_witness:
  "(role manager = ''Manager'' \<or> role manager = ''Finance'')
   \<and> Expense_findById P0 [e1_rejected] e1_id = Inr (Some e1_rejected)
   \<and> status e1_rejected = ''Rejected''
   \<and> ''Under Review'' \<in> set review_statuses
   \<and> \<not> write_throws P0 \<and> \<not> refetch_throws P0
   \<and> (\<exists>e' db'. update_status_route P0 [e1_rejected] manager e1_id
                    \<lparr>req_status = Text ''Under Review'', req_reviewComments = Some ''again''\<rparr>
                  = ((200, Doc e'), db')
                \<and> status e' = ''Under Review''
                \<and> Expense_findById P0 db' e1_id = Inr (Some e'))"
proof -
  have a: "role manager = ''Manager'' \<or> role manager = ''Finance''"
    by (simp add: manager_def)
  have b: "Expense_findById P0 [e1_rejected] e1_id = Inr (Some e1_rejected)"
    by (simp add: Expense_findById_def P0_simps hex24_simps findById_def e1_rejected_def e1_def)
  have c: "''Under Review'' \<in> set review_statuses"
    by (simp add: review_statuses_def)
  have d: "case Some ''again'' of None \<Rightarrow> True | Some c \<Rightarrow> length (trim c) \<le> 500"
    by (simp add: trim_def whitespace_def)
  have e: "\<not> write_throws P0" "\<not> refetch_throws P0"
    by (simp_all add: P0_simps)
  from review_from_any_status [OF a b c d e] a b c e show ?thesis
    by (simp add: e1_rejected_def)
qed

subsection \<open>A status that is not one of the three\<close>

text \<open>
  A status with a value that fails the validator (a string that is none of the three,
  Pending included, an absent status, an array with such an element, an object, another
  scalar) is answered 400 with the validation errors, the status error among them, for a
  Manager or Finance user, and the store is the one before the request. This holds for
  every store and every platform, also one where the load would reject: the validation
  result is checked before the document is loaded.
\<close>

lemma review_invalid_status_rejected:
  assumes "role u = ''Manager'' \<or> role u = ''Finance''"
      and "False \<in> set (status_results (req_status body))"
  shows "update_status_route P db u i body
           = ((400, Errors (validationResult (review_chains body))), db)
         \<and> (''status'', ''Invalid status'') \<in> set (validationResult (review_chains body))"
proof -
  have m: "(''status'', ''Invalid status'') \<in> set (validationResult (review_chains body))"
    using assms(2) by (rule review_status_invalid_errors)
  then have "validationResult (review_chains body) \<noteq> []" by auto
  then show ?thesis using m assms(1)
    by (simp add: update_status_route_def authorize_reviewer review_handler_def)
qed

lemma review_text_status_rejected:
  assumes "role u = ''Manager'' \<or> role u = ''Finance''"
      and "req_status body = Undefined \<or> (\<exists>s. req_status body = Text s \<and> s \<notin> set review_statuses)"
  shows "update_status_route P db u i body
           = ((400, Errors (validationResult (review_chains body))), db)"
proof -
  from assms(2) have "False \<in> set (status_results (req_status body))"
    by (auto simp: status_results_def isIn_def review_statuses_def)
  with assms(1) show ?thesis by (simp add: review_invalid_status_rejected)
qed

lemma review_pending_rejected_example:
  "update_status_route (P0\<lparr>castObjectId := \<lambda>i. None\<rparr>) [e1] manager e1_id
        \<lparr>req_status = Text ''Pending'', req_reviewComments = None\<rparr>
      = ((400, Errors [(''status'', ''Invalid status'')]), [e1])"
  by (simp add: update_status_route_def authorize_def manager_def review_handler_def
      validationResult_def review_chains_def status_results_def isIn_def review_statuses_def)

text \<open>
  C3 fails at an array. The status \<^verbatim>\<open>["Approved"]\<close> is not one of Approved, Rejected,
  Under Review, but the validator passes it, element by element, and the empty array
  too. The handler then loads the document: the request is answered 404 when no expense
  has the identifier, and otherwise 500, when the save rejects the array; it is never
  answered 400. The stored expense is unchanged.
\<close>

theorem review_array_status_not_rejected:
  "validationResult (review_chains \<lparr>req_status = Array [''Approved''], req_reviewComments = None\<rparr>) = []
   \<and> update_status_route P0 [e1] manager e1_id
        \<lparr>req_status = Array [''Approved''], req_reviewComments = None\<rparr>
      = ((500, Message ''Server error''), [e1])
   \<and> update_status_route P0 [e1] manager e1_id
        \<lparr>req_status = Array [], req_reviewComments = None\<rparr>
      = ((500, Message ''Server error''), [e1])
   \<and> update_status_route P0 [e1] manager e9_id
        \<lparr>req_status = Array [''Approved''], req_reviewComments = None\<rparr>
      = ((404, Message ''Expense not found''), [e1])"
  by (simp add: update_status_route_def authorize_def manager_def review_handler_def
      validationResult_def review_chains_def status_results_def isIn_def review_statuses_def
      Expense_findById_def P0_simps hex24_simps findById_def e1_def apply_review_def
      review_sanitize_def)

subsection \<open>What a successful review writes\<close>

text \<open>
  C6. When a status review is answered 200 with the document, that document has the
  requested status (a string, one of the three review statuses), \<open>reviewedBy\<close> the caller
  and \<open>reviewedDate\<close> the current time. Its \<open>reviewComments\<close> are the trimmed comments of
  the request when the request has comments that are not empty after trimming, and the
  comments it had before otherwise, so a request without comments clears nothing. The
  identifier, title, category, amount, currency, description, vendor, invoice,
  submittedBy, submittedDate, expenseDate and createdAt are those of the document
  before. The store holds the new document under the identifier, and every other
  identifier finds what it found before.
\<close>

theorem review_writes_and_frame:
  assumes "update_status_route P db u i body = ((200, Doc e'), db')"
      and "Expense_findById P db i = Inr (Some e)"
  shows "req_status body = Text (status e') \<and> status e' \<in> set review_statuses
         \<and> reviewedBy e' = Some (uid u) \<and> reviewedDate e' = Some (now P)
         \<and> reviewComments e'
             = (case req_reviewComments body of
                  None \<Rightarrow> reviewComments e
                | Some c \<Rightarrow> if trim c \<noteq> [] then Some (trim c) else reviewComments e)
         \<and> eid e' = eid e \<and> title e' = title e \<and> category e' = category e
         \<and> amount e' = amount e \<and> currency e' = currency e \<and> description e' = description e
         \<and> vendor e' = vendor e \<and> invoice e' = invoice e \<and> submittedBy e' = submittedBy e
         \<and> submittedDate e' = submittedDate e \<and> expenseDate e' = expenseDate e
         \<and> createdAt e' = createdAt e
         \<and> Expense_findById P db' i = Inr (Some e')
         \<and> (\<forall>j. j \<noteq> eid e \<longrightarrow> findById db' j = findById db j)"
proof -
  from assms(1) have "review_handler P db u i body = ((200, Doc e'), db')"
    by (rule update_status_route_success)
  then obtain e0 d where e0: "Expense_findById P db i = Inr (Some e0)"
    and v: "validationResult (review_chains body) = []"
    and d: "apply_review P u (review_sanitize body) e0 = Some d"
    and e': "e' = stamp P e0 d"
    and db': "db' = save db e'" and f: "Expense_findById P db' i = Inr (Some e')"
    using review_handler_success by blast
  from e0 assms(2) have [simp]: "e0 = e" by simp
  from d obtain s where s: "req_status body = Text s"
    and d': "d = reviewed P u s (map_option trim (req_reviewComments body)) e"
    by (auto simp: apply_review_eq review_sanitize_def)
  have st: "s \<in> set review_statuses"
    using v s by (simp add: review_chains_pass status_results_Text)
  have id: "eid e' = eid e" by (simp add: e' d' eid_stamp reviewed_frame)
  have others: "\<forall>j. j \<noteq> eid e \<longrightarrow> findById db' j = findById db j"
    using id by (simp add: db' findById_save_other)
  have sets: "req_status body = Text (status e') \<and> reviewedBy e' = Some (uid u)
              \<and> reviewedDate e' = Some (now P)"
    by (simp add: e' d' s stamp_fields reviewed_sets)
  have comments: "reviewComments e'
             = (case req_reviewComments body of
                  None \<Rightarrow> reviewComments e
                | Some c \<Rightarrow> if trim c \<noteq> [] then Some (trim c) else reviewComments e)"
    by (simp add: e' d' stamp_fields reviewed_comments)
  have frame: "eid e' = eid e \<and> title e' = title e \<and> category e' = category e
         \<and> amount e' = amount e \<and> currency e' = currency e \<and> description e' = description e
         \<and> vendor e' = vendor e \<and> invoice e' = invoice e \<and> submittedBy e' = submittedBy e
         \<and> submittedDate e' = submittedDate e \<and> expenseDate e' = expenseDate e
         \<and> createdAt e' = createdAt e"
    by (simp add: e' d' stamp_fields eid_stamp reviewed_frame)
  have "status e' = s" by (simp add: e' d' stamp_fields reviewed_sets)
  with sets st comments frame f others show ?thesis by simp
qed

theorem review_writes_and_frame_witness:
  "update_status_route P0 [e1] finance e1_id
      \<lparr>req_status = Text ''Approved'', req_reviewComments = None\<rparr>
     = ((200, Doc (e1\<lparr>status := ''Approved'', reviewedBy := Some finance_id,
                     reviewedDate := Some 1700000000000, updatedAt := 1700000000000\<rparr>)),
        [e1\<lparr>status := ''Approved'', reviewedBy := Some finance_id,
                     reviewedDate := Some 1700000000000, updatedAt := 1700000000000\<rparr>])
   \<and> Expense_findById P0 [e1] e1_id = Inr (Some e1)
   \<and> reviewComments e1 = Some ''see receipt''
   \<and> reviewComments (e1\<lparr>status := ''Approved'', reviewedBy := Some finance_id,
                     reviewedDate := Some 1700000000000, updatedAt := 1700000000000\<rparr>)
       = Some ''see receipt''
   \<and> title (e1\<lparr>status := ''Approved'', reviewedBy := Some finance_id,
                     reviewedDate := Some 1700000000000, updatedAt := 1700000000000\<rparr>) = title e1"
proof -
  let ?b = "\<lparr>req_status = Text ''Approved'', req_reviewComments = None\<rparr>"
  let ?e = "e1\<lparr>status := ''Approved'', reviewedBy := Some finance_id,
                 reviewedDate := Some 1700000000000, updatedAt := 1700000000000\<rparr>"
  have r: "update_status_route P0 [e1] finance e1_id ?b = ((200, Doc ?e), [?e])"
    by (simp add: update_status_route_def authorize_def finance_def review_handler_def
      validationResult_def review_chains_def status_results_def isIn_def review_statuses_def
      Expense_findById_def P0_simps hex24_simps findById_def e1_def apply_review_def
      reviewed_def review_sanitize_def save_def stamp_def)
  have f: "Expense_findById P0 [e1] e1_id = Inr (Some e1)"
    by (simp add: Expense_findById_def P0_simps hex24_simps findById_def e1_def)
  from review_writes_and_frame [OF r f] r f show ?thesis by (simp add: e1_def)
qed

text \<open>
  The identifier of a request is cast before the lookup: another spelling of the
  identifier finds the same expense. A review that changes no path of the document
  leaves \<open>updatedAt\<close> as it was.
\<close>

lemma review_other_spelling_example:
  "fst (update_status_route P0 [e1] finance ''64B7F0A2C3D4E5F601234561''
      \<lparr>req_status = Text ''Approved'', req_reviewComments = None\<rparr>)
     = (200, Doc (e1\<lparr>status := ''Approved'', reviewedBy := Some finance_id,
                     reviewedDate := Some 1700000000000, updatedAt := 1700000000000\<rparr>))"
  by (simp add: update_status_route_def authorize_def finance_def review_handler_def
      validationResult_def review_chains_def status_results_def isIn_def review_statuses_def
      Expense_findById_def P0_simps hex24_simps findById_def e1_def apply_review_def
      reviewed_def review_sanitize_def save_def stamp_def)

lemma stamp_unchanged: "stamp P e e = e"
  by (simp add: stamp_def)

section \<open>Properties of the ownership check\<close>

lemma Expense_findById_Inl:
  "(\<exists>err. Expense_findById P db i = Inl err) \<longleftrightarrow>
   castObjectId P i = None \<or> findById_throws P i"
  by (auto simp: Expense_findById_def split: option.splits)

text \<open>
  C2 as stated fails: for an Employee and an identifier that does not cast to an
  ObjectId, the load rejects, and the check answers 500, not 404, although no expense
  has the identifier.
\<close>

theorem access_malformed_id_counterexample:
  "role bob \<noteq> ''Manager'' \<and> role bob \<noteq> ''Finance''
   \<and> castObjectId P0 ''nope'' = None
   \<and> ''nope'' \<notin> eid ` set [e1]
   \<and> canAccessExpense P0 [e1] bob ''nope'' = Some (500, Message ''Server error'')
   \<and> canAccessExpense P0 [e1] bob ''nope'' \<noteq> Some (404, Message ''Expense not found'')"
  by (simp add: bob_def canAccessExpense_def Expense_findById_def P0_simps hex24_simps e1_def)

text \<open>
  The identifier is cast before the lookup, so the owner asking with another spelling of
  the identifier of the expense passes.
\<close>

lemma access_other_spelling_example:
  "canAccessExpense P0 [e1] alice ''64B7F0A2C3D4E5F601234561'' = None"
  "canAccessExpense P0 [e1] bob ''64B7F0A2C3D4E5F601234561''
     = Some (403, Message ''Not authorized to access this expense'')"
  by (simp_all add: alice_def bob_def canAccessExpense_def Expense_findById_def P0_simps
      hex24_simps findById_def e1_def)

text \<open>
  C2, amended. For every user and expense identifier: a Manager or Finance user passes
  the check, whatever the store holds and also when the load would reject, so the
  expense is not loaded. For any other role the expense is loaded: when the load
  rejects (the identifier does not cast to an ObjectId, or the store fails) the check
  answers 500; when it returns, the check answers 404 if no expense was found, 403 if
  the expense was submitted by someone else, and passes if it was submitted by the
  user. Single retrieval and invoice download both answer what the check answers when
  it answers; when it passes and the expense is found, retrieval sends the expense and
  download sends its stored file under the original name.
\<close>

theorem canAccessExpense_cases:
  "(role u = ''Manager'' \<or> role u = ''Finance'' \<longrightarrow> canAccessExpense P db u i = None)
   \<and> (role u \<noteq> ''Manager'' \<and> role u \<noteq> ''Finance'' \<longrightarrow>
        (\<forall>err. Expense_findById P db i = Inl err \<longrightarrow>
           canAccessExpense P db u i = Some (500, Message ''Server error''))
      \<and> (Expense_findById P db i = Inr None \<longrightarrow>
           canAccessExpense P db u i = Some (404, Message ''Expense not found''))
      \<and> (\<forall>e. Expense_findById P db i = Inr (Some e) \<and> submittedBy e \<noteq> uid u \<longrightarrow>
           canAccessExpense P db u i = Some (403, Message ''Not authorized to access this expense''))
      \<and> (\<forall>e. Expense_findById P db i = Inr (Some e) \<and> submittedBy e = uid u \<longrightarrow>
           canAccessExpense P db u i = None))
   \<and> (\<forall>r. canAccessExpense P db u i = Some r \<longrightarrow>
        get_expense_route P db u i = (r, db) \<and> download_invoice_route P db u i = (r, db))
   \<and> (\<forall>e. canAccessExpense P db u i = None \<and> Expense_findById P db i = Inr (Some e) \<longrightarrow>
        get_expense_route P db u i = ((200, Doc e), db)
        \<and> (existsSync P (path (invoice e)) \<longrightarrow>
             download_invoice_route P db u i
               = ((200, Download (path (invoice e)) (originalName (invoice e))), db)))"
proof (intro conjI allI impI)
  fix r
  assume "canAccessExpense P db u i = Some r"
  then show "get_expense_route P db u i = (r, db)"
    and "download_invoice_route P db u i = (r, db)"
    by (simp_all add: get_expense_route_def download_invoice_route_def)
next
  fix e
  assume a: "canAccessExpense P db u i = None \<and> Expense_findById P db i = Inr (Some e)"
  then show "get_expense_route P db u i = ((200, Doc e), db)"
    by (simp add: get_expense_route_def)
  assume "existsSync P (path (invoice e))"
  with a show "download_invoice_route P db u i
               = ((200, Download (path (invoice e)) (originalName (invoice e))), db)"
    by (simp add: download_invoice_route_def)
qed (auto simp: canAccessExpense_def)

theorem canAccessExpense_cases_witness:
  "role manager = ''Manager''
   \<and> canAccessExpense (P0\<lparr>castObjectId := \<lambda>i. None\<rparr>) [] manager e1_id = None
   \<and> role bob \<noteq> ''Manager'' \<and> role bob \<noteq> ''Finance''
   \<and> Expense_findById P0 [e1] ''nope'' = Inl CastError
   \<and> canAccessExpense P0 [e1] bob ''nope'' = Some (500, Message ''Server error'')
   \<and> Expense_findById P0 [e1] e9_id = Inr None
   \<and> canAccessExpense P0 [e1] bob e9_id = Some (404, Message ''Expense not found'')
   \<and> Expense_findById P0 [e1] e1_id = Inr (Some e1) \<and> submittedBy e1 \<noteq> uid bob
   \<and> canAccessExpense P0 [e1] bob e1_id
       = Some (403, Message ''Not authorized to access this expense'')
   \<and> get_expense_route P0 [e1] bob e1_id
       = ((403, Message ''Not authorized to access this expense''), [e1])
   \<and> download_invoice_route P0 [e1] bob e1_id
       = ((403, Message ''Not authorized to access this expense''), [e1])
   \<and> submittedBy e1 = uid alice \<and> role alice \<noteq> ''Manager'' \<and> role alice \<noteq> ''Finance''
   \<and> canAccessExpense P0 [e1] alice e1_id = None
   \<and> get_expense_route P0 [e1] manager e1_id = ((200, Doc e1), [e1])
   \<and> download_invoice_route P0 [e1] alice e1_id
       = ((200, Download ''uploads/invoices/invoice-1-1.pdf'' ''taxi.pdf''), [e1])"
  using canAccessExpense_cases [of manager P0 "[e1]" e1_id]
    canAccessExpense_cases [of manager "P0\<lparr>castObjectId := \<lambda>i. None\<rparr>" "[]" e1_id]
    canAccessExpense_cases [of bob P0 "[e1]" "''nope''"]
    canAccessExpense_cases [of bob P0 "[e1]" e9_id]
    canAccessExpense_cases [of bob P0 "[e1]" e1_id]
    canAccessExpense_cases [of alice P0 "[e1]" e1_id]
  by (simp add: manager_def bob_def alice_def Expense_findById_def P0_simps hex24_simps
      findById_def e1_def canAccessExpense_def)

section \<open>Properties of the submission\<close>

lemma submit_chains_pass:
  "validationResult (submit_chains P b) = [] \<longleftrightarrow>
     isLength 1 100 (trim (toString (req_title b)))
   \<and> isIn categories (toString (req_category b))
   \<and> isFloat P (toString (req_amount b))
   \<and> isLength 1 500 (trim (toString (req_description b)))
   \<and> notEmpty (trim (toString (vendor_name b)))
   \<and> isISO8601 P (toString (req_expenseDate b))"
  by (auto simp: validationResult_def submit_chains_def)

text \<open>
  When every chain has passed and the body has no field named \<^verbatim>\<open>vendor.name\<close>, the
  vendor is structured; a structured vendor is passed on as it is, and nothing is parsed.
\<close>

lemma chains_pass_vendor:
  assumes "validationResult (submit_chains P b) = []" and "req_vendor_dot_name b = None"
  shows "\<exists>n c a. req_vendor b = Object (Some n) c a \<and> trim n \<noteq> []"
  using assms
  by (auto simp: submit_chains_pass notEmpty_def vendor_name_def toString_def trim_Nil
      split: jvalue.splits option.splits)

lemma parse_vendor_not_text:
  "(\<forall>s. v \<noteq> Text s) \<Longrightarrow> parse_vendor P v = Some v"
  by (cases v) (simp_all add: parse_vendor_def)

lemma chains_pass_parse:
  assumes "validationResult (submit_chains P b) = []" and "req_vendor_dot_name b = None"
  shows "parse_vendor P (req_vendor (submit_sanitize b)) = Some (req_vendor (submit_sanitize b))"
  using chains_pass_vendor [OF assms] assms(2)
  by (auto simp: parse_vendor_def submit_sanitize_def)

lemma submit_handler_valid:
  assumes "validationResult (submit_chains P b) = []"
  shows "submit_handler P db u b (Some f) =
           (case parse_vendor P (req_vendor (submit_sanitize b)) of
              None \<Rightarrow> ((400, Message ''Invalid vendor data format''), db)
            | Some vd \<Rightarrow>
                (case Expense_create P db (submit_input P u (submit_sanitize b) vd f) of
                   Inl err \<Rightarrow> ((500, Message ''Server error during expense submission''), db)
                 | Inr e \<Rightarrow> ((201, Doc e), db @ [e])))"
  using assms by (simp add: submit_handler_def Let_def)

lemma submit_route_created:
  assumes "submit_route P db u body fl = ((201, Doc e), db')"
  shows "role u = ''Employee'' \<and> submit_handler P db u body fl = ((201, Doc e), db')"
  using assms by (auto simp: submit_route_def authorize_def split: if_splits)

lemma submit_handler_created:
  assumes "submit_handler P db u body fl = ((201, Doc e), db')"
  shows "\<exists>f vd. fl = Some f \<and> validationResult (submit_chains P body) = []
           \<and> parse_vendor P (req_vendor (submit_sanitize body)) = Some vd
           \<and> Expense_create P db (submit_input P u (submit_sanitize body) vd f) = Inr e
           \<and> db' = db @ [e]"
  using assms
  by (auto simp: submit_handler_def Let_def split: if_splits option.splits sum.splits)

lemma schema_doc_defaults:
  assumes "schema_doc P d = Some e"
  shows "eid e = newObjectId P \<and> status e = ''Pending'' \<and> reviewedBy e = None
         \<and> reviewComments e = None \<and> reviewedDate e = None \<and> submittedDate e = now P
         \<and> createdAt e = now P \<and> updatedAt e = now P
         \<and> invoice e = in_invoice d \<and> submittedBy e = in_submittedBy d
         \<and> currency e = in_currency d \<and> currency e \<in> set currencies
         \<and> category e \<in> set categories \<and> 1 / 100 \<le> amount e"
  using assms
  by (auto simp: schema_doc_def split: option.splits jvalue.splits if_splits)

lemma schema_doc_currency:
  "in_currency d \<notin> set currencies \<Longrightarrow> schema_doc P d = None"
  by (auto simp: schema_doc_def split: option.splits jvalue.splits)

lemma in_currency_submit_input:
  "in_currency (submit_input P u (submit_sanitize b) vd f)
   = (case req_currency b of None \<Rightarrow> ''USD'' | Some c \<Rightarrow> c)"
  by (simp add: submit_input_def submit_sanitize_def)

lemma Expense_create_Inr:
  assumes "Expense_create P db d = Inr e"
  shows "schema_doc P d = Some e \<and> \<not> write_throws P \<and> findById db (eid e) = None"
  using assms by (auto simp: Expense_create_def split: option.splits if_splits)

lemma P0_submit_simps:
  "isFloat P0 s = (s = ''42.50'')"
  "parseFloat P0 s = (if s = ''42.50'' then Some (85 / 2) else None)"
  "isISO8601 P0 s = (s = ''2024-01-15'')"
  "newDate P0 s = (if s = ''2024-01-15'' then Some 1705276800000 else None)"
  "JSON_parse P0 s
     = (if s = ''{\"name\":\"Acme\"}'' then Some (Object (Some ''Acme'') None None) else None)"
  by (simp_all add: P0_def)

lemma submit_example:
  "submit_route P0 [e1] alice body0 (Some file0) = ((201, Doc e2), [e1, e2])"
  by (simp add: submit_route_def authorize_def alice_def submit_handler_def validationResult_def
      submit_chains_def body0_def isLength_def isIn_def categories_def notEmpty_def vendor_name_def
      toString_def P0_simps P0_submit_simps trim_simps submit_sanitize_def parse_vendor_def
      Expense_create_def schema_doc_def submit_input_def file0_def currencies_def findById_def
      e1_def e2_def)

subsection \<open>The created expense\<close>

text \<open>
  C4. When a submission is answered 201 with the created expense, that expense has the
  status Pending, \<open>submittedBy\<close> the caller, \<open>submittedDate\<close> the time of creation, no
  \<open>reviewedBy\<close> and no \<open>reviewedDate\<close>; a file was uploaded, and the invoice holds its
  stored name, original name, path, size and media type as they are; the store is the
  one before with the expense added.
\<close>

theorem submit_creates_pending:
  assumes "submit_route P db u body fl = ((201, Doc e), db')"
  shows "status e = ''Pending'' \<and> submittedBy e = uid u \<and> submittedDate e = now P
         \<and> reviewedBy e = None \<and> reviewedDate e = None
         \<and> (\<exists>f. fl = Some f
               \<and> invoice e = \<lparr>filename = file_filename f, originalName = file_originalname f,
                                path = file_path f, size_bytes = file_size f,
                                mimetype = file_mimetype f\<rparr>)
         \<and> db' = db @ [e]"
proof -
  from assms have "submit_handler P db u body fl = ((201, Doc e), db')"
    by (simp add: submit_route_created)
  then obtain f vd where f: "fl = Some f"
    and c: "Expense_create P db (submit_input P u (submit_sanitize body) vd f) = Inr e"
    and db': "db' = db @ [e]"
    using submit_handler_created by blast
  from c have "schema_doc P (submit_input P u (submit_sanitize body) vd f) = Some e"
    by (simp add: Expense_create_Inr)
  from schema_doc_defaults [OF this] f db' show ?thesis
    by (simp add: submit_input_def)
qed

theorem submit_creates_pending_witness:
  "submit_route P0 [e1] alice body0 (Some file0) = ((201, Doc e2), [e1, e2])
   \<and> status e2 = ''Pending'' \<and> submittedBy e2 = uid alice \<and> submittedDate e2 = now P0
   \<and> reviewedBy e2 = None \<and> reviewedDate e2 = None
   \<and> invoice e2 = \<lparr>filename = file_filename file0, originalName = file_originalname file0,
                      path = file_path file0, size_bytes = file_size file0,
                      mimetype = file_mimetype file0\<rparr>"
  using submit_creates_pending [OF submit_example] submit_example by simp

subsection \<open>Validation errors, the missing file and the failing store\<close>

text \<open>
  C7. For an Employee's submission: when some chain fails, the answer is 400 with the
  \<^verbatim>\<open>errors\<close> array, which holds the field and message of every chain that failed (as
  many errors as failed chains), not only of the first. When every chain passes and no
  file is attached, the answer is 400 with a \<^verbatim>\<open>message\<close>, a shape other than the
  \<^verbatim>\<open>errors\<close> array. When every chain passes, a file is attached and creating the
  document, with the vendor as the handler has read it, fails in the store, the answer
  is the generic 500 and the store is unchanged.
\<close>

theorem submit_failures:
  "(role u = ''Employee'' \<and> validationResult (submit_chains P b) \<noteq> [] \<longrightarrow>
      submit_route P db u b fl = ((400, Errors (validationResult (submit_chains P b))), db)
      \<and> (\<forall>(p, ok, m) \<in> set (submit_chains P b).
            \<not> ok \<longrightarrow> (p, m) \<in> set (validationResult (submit_chains P b)))
      \<and> length (validationResult (submit_chains P b))
          = length (filter (\<lambda>(p, ok, m). \<not> ok) (submit_chains P b)))
   \<and> (role u = ''Employee'' \<and> validationResult (submit_chains P b) = [] \<longrightarrow>
        submit_route P db u b None = ((400, Message ''Invoice file is required''), db))
   \<and> (\<forall>f vd err. role u = ''Employee'' \<and> validationResult (submit_chains P b) = []
        \<and> parse_vendor P (req_vendor (submit_sanitize b)) = Some vd
        \<and> Expense_create P db (submit_input P u (submit_sanitize b) vd f) = Inl err \<longrightarrow>
        submit_route P db u b (Some f)
          = ((500, Message ''Server error during expense submission''), db))"
proof (intro conjI impI allI)
  assume a: "role u = ''Employee'' \<and> validationResult (submit_chains P b) \<noteq> []"
  then show "submit_route P db u b fl = ((400, Errors (validationResult (submit_chains P b))), db)"
    by (simp add: submit_route_def authorize_employee submit_handler_def)
next
  show "\<forall>(p, ok, m) \<in> set (submit_chains P b).
            \<not> ok \<longrightarrow> (p, m) \<in> set (validationResult (submit_chains P b))"
    by (rule validationResult_all)
next
  show "length (validationResult (submit_chains P b))
          = length (filter (\<lambda>(p, ok, m). \<not> ok) (submit_chains P b))"
    by (rule validationResult_length)
next
  assume "role u = ''Employee'' \<and> validationResult (submit_chains P b) = []"
  then show "submit_route P db u b None = ((400, Message ''Invoice file is required''), db)"
    by (simp add: submit_route_def authorize_employee submit_handler_def)
next
  fix f vd err
  assume a: "role u = ''Employee'' \<and> validationResult (submit_chains P b) = []
        \<and> parse_vendor P (req_vendor (submit_sanitize b)) = Some vd
        \<and> Expense_create P db (submit_input P u (submit_sanitize b) vd f) = Inl err"
  then have "validationResult (submit_chains P b) = []" by simp
  from submit_handler_valid [OF this] a
  show "submit_route P db u b (Some f)
          = ((500, Message ''Server error during expense submission''), db)"
    by (simp add: submit_route_def authorize_employee)
qed

theorem submit_failures_witness:
  "role alice = ''Employee''
   \<and> submit_route P0 [e1] alice (body0\<lparr>req_title := None, req_category := Some ''Gifts''\<rparr>)
        (Some file0)
       = ((400, Errors [(''title'', ''Title is required and must be less than 100 characters''),
                        (''category'', ''Invalid category'')]), [e1])
   \<and> validationResult (submit_chains P0 body0) = []
   \<and> submit_route P0 [e1] alice body0 None = ((400, Message ''Invoice file is required''), [e1])
   \<and> parse_vendor (P0\<lparr>write_throws := True\<rparr>) (req_vendor (submit_sanitize body0))
       = Some (Object (Some ''Acme'') None None)
   \<and> Expense_create (P0\<lparr>write_throws := True\<rparr>) [e1]
        (submit_input (P0\<lparr>write_throws := True\<rparr>) alice (submit_sanitize body0)
           (Object (Some ''Acme'') None None) file0) = Inl StoreFailure
   \<and> submit_route (P0\<lparr>write_throws := True\<rparr>) [e1] alice body0 (Some file0)
       = ((500, Message ''Server error during expense submission''), [e1])"
proof -
  let ?bad = "body0\<lparr>req_title := None, req_category := Some ''Gifts''\<rparr>"
  let ?P = "P0\<lparr>write_throws := True\<rparr>"
  have r: "role alice = ''Employee''" by (simp add: alice_def)
  have bad: "validationResult (submit_chains P0 ?bad)
       = [(''title'', ''Title is required and must be less than 100 characters''),
          (''category'', ''Invalid category'')]"
    by (simp add: validationResult_def submit_chains_def body0_def isLength_def isIn_def
        categories_def notEmpty_def vendor_name_def toString_def P0_submit_simps trim_simps
        trim_Nil)
  have ok: "validationResult (submit_chains P0 body0) = []"
    by (simp add: validationResult_def submit_chains_def body0_def isLength_def isIn_def
        categories_def notEmpty_def vendor_name_def toString_def P0_submit_simps trim_simps)
  have ok': "validationResult (submit_chains ?P body0) = []"
    by (simp add: validationResult_def submit_chains_def body0_def isLength_def isIn_def
        categories_def notEmpty_def vendor_name_def toString_def P0_def trim_simps)
  have p: "parse_vendor ?P (req_vendor (submit_sanitize body0))
       = Some (Object (Some ''Acme'') None None)"
    by (simp add: parse_vendor_def submit_sanitize_def body0_def toString_def trim_simps)
  have c: "Expense_create ?P [e1]
        (submit_input ?P alice (submit_sanitize body0) (Object (Some ''Acme'') None None) file0)
       = Inl StoreFailure"
    by (simp add: Expense_create_def schema_doc_def submit_input_def submit_sanitize_def body0_def
        toString_def P0_def trim_simps file0_def categories_def currencies_def)
  from submit_failures [where u = alice and P = P0 and b = ?bad and db = "[e1]" and fl = "Some file0"]
    submit_failures [where u = alice and P = P0 and b = body0 and db = "[e1]"]
    submit_failures [where u = alice and P = ?P and b = body0 and db = "[e1]"] r bad ok ok' p c
  show ?thesis by simp
qed

subsection \<open>A vendor sent as a serialized string\<close>

text \<open>
  When the body has no field named \<^verbatim>\<open>vendor.name\<close>, a vendor that is a text field has no
  name for the chain, so the chain fails and the submission is answered 400 with the
  \<^verbatim>\<open>errors\<close> array before the handler reads the vendor.
\<close>

lemma text_vendor_rejected:
  assumes "role u = ''Employee''" and "req_vendor b = Text s" and "req_vendor_dot_name b = None"
  shows "\<exists>errs. submit_route P db u b fl = ((400, Errors errs), db)
           \<and> (''vendor.name'', ''Vendor name is required'') \<in> set errs"
proof -
  have m: "(''vendor.name'', ''Vendor name is required'')
           \<in> set (validationResult (submit_chains P b))"
    using assms(2,3)
    by (simp add: validationResult_set submit_chains_def vendor_name_def toString_def trim_Nil
        notEmpty_def)
  then have "validationResult (submit_chains P b) \<noteq> []" by auto
  with m assms(1) show ?thesis
    by (simp add: submit_route_def authorize_employee submit_handler_def)
qed

text \<open>
  Only a body that also has a field named \<^verbatim>\<open>vendor.name\<close> brings a text vendor to the
  parse: the vendor is then decoded and the expense created, or, when the text does not
  decode, the submission is answered 400 with a message.
\<close>

lemma text_vendor_with_name_field_examples:
  "submit_route P0 [e1] alice
      (body0\<lparr>req_vendor := Text ''{\"name\":\"Acme\"}'', req_vendor_dot_name := Some ''Acme''\<rparr>)
      (Some file0)
     = ((201, Doc e2), [e1, e2])"
  "submit_route P0 [e1] alice
      (body0\<lparr>req_vendor := Text ''{name'', req_vendor_dot_name := Some ''Acme''\<rparr>)
      (Some file0)
     = ((400, Message ''Invalid vendor data format''), [e1])"
  by (simp_all add: submit_route_def authorize_def alice_def submit_handler_def
      validationResult_def submit_chains_def body0_def isLength_def isIn_def categories_def
      notEmpty_def vendor_name_def toString_def P0_simps P0_submit_simps trim_simps
      submit_sanitize_def parse_vendor_def Expense_create_def schema_doc_def submit_input_def
      file0_def currencies_def findById_def e1_def e2_def)

text \<open>
  A text vendor that does not decode is answered 400 in either case, by the chain or by
  the handler.
\<close>

lemma undecodable_vendor_400:
  assumes "role u = ''Employee''" and "req_vendor b = Text s" and "JSON_parse P s = None"
  shows "\<exists>p. submit_route P db u b (Some f) = ((400, p), db)"
proof (cases "validationResult (submit_chains P b) = []")
  case True
  have "parse_vendor P (req_vendor (submit_sanitize b)) = None"
    using assms(2,3) by (simp add: parse_vendor_def submit_sanitize_def split: option.splits)
  with True assms(1) show ?thesis
    by (simp add: submit_route_def authorize_employee submit_handler_valid)
next
  case False
  with assms(1) show ?thesis
    by (simp add: submit_route_def authorize_employee submit_handler_def)
qed

text \<open>
  C8, at one input. The vendor \<^verbatim>\<open>{"name":"Acme"}\<close> sent as a serialized string, which
  \<^verbatim>\<open>JSON.parse\<close> decodes to a vendor named Acme, with every other field valid and a file
  attached, is answered 400 with the error that the vendor name is required, and nothing
  is stored. The same submission with the vendor sent structured is answered 201.
\<close>

theorem submit_serialized_vendor_rejected:
  "JSON_parse P0 ''{\"name\":\"Acme\"}'' = Some (Object (Some ''Acme'') None None)
   \<and> submit_route P0 [e1] alice (body0\<lparr>req_vendor := Object (Some ''Acme'') None None\<rparr>)
        (Some file0)
       = ((201, Doc e2), [e1, e2])
   \<and> submit_route P0 [e1] alice (body0\<lparr>req_vendor := Text ''{\"name\":\"Acme\"}''\<rparr>)
        (Some file0)
       = ((400, Errors [(''vendor.name'', ''Vendor name is required'')]), [e1])"
  by (simp add: submit_route_def authorize_def alice_def submit_handler_def validationResult_def
      submit_chains_def body0_def isLength_def isIn_def categories_def notEmpty_def vendor_name_def
      toString_def P0_simps P0_submit_simps trim_simps trim_Nil submit_sanitize_def
      parse_vendor_def Expense_create_def schema_doc_def submit_input_def file0_def
      currencies_def findById_def e1_def e2_def)

subsection \<open>The currency is checked by the store only\<close>

text \<open>
  C10. No chain of the submission reads the currency: the chains of a body are those of
  the body with any other currency. When an Employee's submission passes every chain,
  has a file, a vendor that the handler can read (structured, or a text that decodes)
  and a currency outside USD, EUR, GBP, INR, CAD, AUD, the schema rejects the document
  and the answer is the generic 500, not a 400, with the store unchanged. A body with
  no field named \<^verbatim>\<open>vendor.name\<close> that passes every chain always has such a vendor. When
  the currency is absent and the submission is answered 201, the created expense has the
  currency USD.
\<close>

theorem submit_currency_unchecked:
  "submit_chains P (b\<lparr>req_currency := c'\<rparr>) = submit_chains P b
   \<and> (\<forall>c vd. role u = ''Employee'' \<and> validationResult (submit_chains P b) = []
          \<and> req_currency b = Some c \<and> c \<notin> set currencies
          \<and> parse_vendor P (req_vendor (submit_sanitize b)) = Some vd \<longrightarrow>
        submit_route P db u b (Some f)
          = ((500, Message ''Server error during expense submission''), db))
   \<and> (validationResult (submit_chains P b) = [] \<and> req_vendor_dot_name b = None \<longrightarrow>
        parse_vendor P (req_vendor (submit_sanitize b)) = Some (req_vendor (submit_sanitize b)))
   \<and> (\<forall>e db'. req_currency b = None \<and> submit_route P db u b fl = ((201, Doc e), db') \<longrightarrow>
        currency e = ''USD'')"
proof (intro conjI allI impI)
  show "submit_chains P (b\<lparr>req_currency := c'\<rparr>) = submit_chains P b"
    by (simp add: submit_chains_def vendor_name_def split: option.splits)
next
  fix c vd
  assume a: "role u = ''Employee'' \<and> validationResult (submit_chains P b) = []
          \<and> req_currency b = Some c \<and> c \<notin> set currencies
          \<and> parse_vendor P (req_vendor (submit_sanitize b)) = Some vd"
  let ?d = "submit_input P u (submit_sanitize b) vd f"
  from a have "in_currency ?d \<notin> set currencies"
    by (simp add: in_currency_submit_input)
  then have "Expense_create P db ?d = Inl ValidationFailed"
    by (simp add: Expense_create_def schema_doc_currency)
  moreover from a have "validationResult (submit_chains P b) = []" by simp
  ultimately show "submit_route P db u b (Some f)
          = ((500, Message ''Server error during expense submission''), db)"
    using a by (simp add: submit_route_def authorize_employee submit_handler_valid)
next
  assume "validationResult (submit_chains P b) = [] \<and> req_vendor_dot_name b = None"
  then show "parse_vendor P (req_vendor (submit_sanitize b))
             = Some (req_vendor (submit_sanitize b))"
    by (simp add: chains_pass_parse)
next
  fix e db'
  assume a: "req_currency b = None \<and> submit_route P db u b fl = ((201, Doc e), db')"
  then have "submit_handler P db u b fl = ((201, Doc e), db')"
    by (simp add: submit_route_created)
  then obtain f vd where
    "Expense_create P db (submit_input P u (submit_sanitize b) vd f) = Inr e"
    using submit_handler_created by blast
  then have "schema_doc P (submit_input P u (submit_sanitize b) vd f) = Some e"
    by (simp add: Expense_create_Inr)
  from schema_doc_defaults [OF this] a show "currency e = ''USD''"
    by (simp add: in_currency_submit_input)
qed

theorem submit_currency_unchecked_witness:
  "role alice = ''Employee''
   \<and> validationResult (submit_chains P0 (body0\<lparr>req_currency := Some ''JPY''\<rparr>)) = []
   \<and> req_currency (body0\<lparr>req_currency := Some ''JPY''\<rparr>) = Some ''JPY''
   \<and> ''JPY'' \<notin> set currencies
   \<and> req_vendor_dot_name (body0\<lparr>req_currency := Some ''JPY''\<rparr>) = None
   \<and> submit_route P0 [e1] alice (body0\<lparr>req_currency := Some ''JPY''\<rparr>) (Some file0)
       = ((500, Message ''Server error during expense submission''), [e1])
   \<and> req_currency body0 = None
   \<and> submit_route P0 [e1] alice body0 (Some file0) = ((201, Doc e2), [e1, e2])
   \<and> currency e2 = ''USD''"
proof -
  let ?b = "body0\<lparr>req_currency := Some ''JPY''\<rparr>"
  have r: "role alice = ''Employee''" by (simp add: alice_def)
  have ok: "validationResult (submit_chains P0 ?b) = []"
    by (simp add: validationResult_def submit_chains_def body0_def isLength_def isIn_def
        categories_def notEmpty_def vendor_name_def toString_def P0_submit_simps trim_simps)
  have j: "''JPY'' \<notin> set currencies" by (simp add: currencies_def)
  have n: "req_currency body0 = None" "req_vendor_dot_name ?b = None"
    by (simp_all add: body0_def)
  from submit_currency_unchecked
         [where P = P0 and b = ?b and u = alice and db = "[e1]" and f = file0]
    submit_currency_unchecked
         [where P = P0 and b = body0 and u = alice and db = "[e1]" and fl = "Some file0"]
    r ok j n submit_example
  show ?thesis by simp
qed

section \<open>Properties of the administrative listing\<close>

lemma newest_first_sorted:
  "sorted_wrt (\<lambda>a b. submittedDate b \<le> submittedDate a) (newest_first xs)"
proof -
  have "sorted (map (\<lambda>e. - submittedDate e) (newest_first xs))"
    unfolding newest_first_def by (rule sorted_sort_key)
  then show ?thesis by (simp add: sorted_map)
qed

lemma newest_first_mset: "mset (newest_first xs) = mset xs"
  by (simp add: newest_first_def)

lemma status_filter_text:
  "status_filter (case st of None \<Rightarrow> NoStatus | Some s \<Rightarrow> StatusText s)
   = Some (\<lambda>x. case st of None \<Rightarrow> True | Some s \<Rightarrow> s = [] \<or> x = s)"
  by (auto simp: status_filter_def split: option.splits)

lemma ceil_div_ceiling:
  assumes "1 \<le> l"
  shows "ceil_div n l = Some \<lceil>real n / real_of_int l\<rceil>"
proof -
  have "\<lceil>real_of_int (int n) / real_of_int l\<rceil> = - (- int n div l)"
    by (rule ceiling_divide_eq_div)
  then show ?thesis using assms by (simp add: ceil_div_def)
qed

lemma newest_first_examples:
  "newest_first [e1, e3, e4] = [e3, e4, e1]" "newest_first [e4] = [e4]"
  "newest_first [e1, e3] = [e3, e1]"
  by (simp_all add: newest_first_def e1_def e3_def e4_def)

text \<open>
  C9 as stated fails, since the handler takes the query as it comes. With the limit 0
  the listing sends all three expenses, more than the limit, and a \<^verbatim>\<open>totalPages\<close> that is
  no number. With the page 0 it is answered 500. With the status of the query
  \<^verbatim>\<open>?status[$ne]=Approved\<close>, a condition and not a string, it sends the expenses whose
  status is not Approved, which is no exact match.
\<close>

theorem listing_unchecked_query_counterexample:
  "list_route P0 [e1, e3, e4] manager \<lparr>q_status = NoStatus, q_page = None, q_limit = Some 0\<rparr>
     = ((200, Page [e3, e4, e1] None (Number 1) 3), [e1, e3, e4])
   \<and> \<not> length [e3, e4, e1] \<le> nat 0
   \<and> list_route P0 [e1, e3, e4] manager \<lparr>q_status = NoStatus, q_page = Some 0, q_limit = None\<rparr>
     = ((500, Message ''Server error''), [e1, e3, e4])
   \<and> list_route P0 [e1, e3, e4] manager
        \<lparr>q_status = StatusCondition (\<lambda>s. s \<noteq> ''Approved''), q_page = None, q_limit = None\<rparr>
     = ((200, Page [e3, e1] (Some 1) (Number 1) 2), [e1, e3, e4])
   \<and> status e3 = ''Pending''"
proof -
  have m: "matching (\<lambda>s. True) [e1, e3, e4] = [e1, e3, e4]"
    "matching (\<lambda>s. s \<noteq> ''Approved'') [e1, e3, e4] = [e1, e3]"
    by (simp_all add: matching_def e1_def e3_def e4_def)
  show ?thesis
    by (simp add: list_route_def authorize_def manager_def list_handler_def P0_simps
        status_filter_def m newest_first_examples skip_limit_def ceil_div_def)
      (simp add: e3_def e1_def)
qed

text \<open>
  C9, amended. For a Manager or Finance user, a store that answers, a page of at least 1
  and a limit of at least 1 when the query gives them (the page is 1 and the limit 10
  when it does not), and a status that is a string when the query gives one: the
  listing is answered 200 with the expenses, totalPages, currentPage and total, where
  the expenses found are those whose status equals the status of the query (all of them
  when the query has no status or an empty one), total is their number, totalPages is
  the ceiling of total divided by limit, currentPage is the page of the query (the
  number 1 when it has none), and the expenses sent are the found ones ordered newest
  submittedDate first, without the first (page - 1) * limit and cut after limit. The
  order is a permutation of the found expenses with no earlier date before a later one,
  and at most limit expenses are sent.
\<close>

theorem listing_page:
  fixes page limit :: int
  assumes "role u = ''Manager'' \<or> role u = ''Finance''"
      and "\<not> find_throws P"
      and "q_status q = (case st of None \<Rightarrow> NoStatus | Some s \<Rightarrow> StatusText s)"
      and "page = (case q_page q of None \<Rightarrow> 1 | Some p \<Rightarrow> p)"
      and "limit = (case q_limit q of None \<Rightarrow> 10 | Some l \<Rightarrow> l)"
      and "1 \<le> page" and "1 \<le> limit"
      and "found = filter (\<lambda>e. case st of None \<Rightarrow> True | Some s \<Rightarrow> s = [] \<or> status e = s) db"
      and "expenses = take (nat limit) (drop (nat ((page - 1) * limit)) (newest_first found))"
  shows "list_route P db u q
           = ((200, Page expenses (Some \<lceil>real (length found) / real_of_int limit\<rceil>)
                 (case q_page q of None \<Rightarrow> Number 1 | Some p \<Rightarrow> QueryString p)
                 (length found)), db)
         \<and> sorted_wrt (\<lambda>a b. submittedDate b \<le> submittedDate a) (newest_first found)
         \<and> mset (newest_first found) = mset found
         \<and> sorted_wrt (\<lambda>a b. submittedDate b \<le> submittedDate a) expenses
         \<and> length expenses \<le> nat limit
         \<and> set expenses \<subseteq> set found"
proof -
  have m: "matching (\<lambda>x. case st of None \<Rightarrow> True | Some s \<Rightarrow> s = [] \<or> x = s) db = found"
    unfolding matching_def assms(8) by (rule filter_cong) (auto split: option.splits)
  have "0 \<le> (page - 1) * limit"
    using assms(6,7) by (intro mult_nonneg_nonneg) simp_all
  then have sk: "skip_limit ((page - 1) * limit) (limit * 1) (newest_first found) = Inr expenses"
    using assms(7,9) by (simp add: skip_limit_def)
  have r: "list_route P db u q
           = ((200, Page expenses (Some \<lceil>real (length found) / real_of_int limit\<rceil>)
                 (case q_page q of None \<Rightarrow> Number 1 | Some p \<Rightarrow> QueryString p)
                 (length found)), db)"
    using assms(1,2,7) sk
    by (simp add: list_route_def authorize_reviewer list_handler_def Let_def assms(3)
        status_filter_text m assms(4)[symmetric] assms(5)[symmetric]
        ceil_div_ceiling del: mult_1_right mult.right_neutral)
  have s: "sorted_wrt (\<lambda>a b. submittedDate b \<le> submittedDate a) expenses"
    unfolding assms(9) by (intro sorted_wrt_take sorted_wrt_drop newest_first_sorted)
  have "set expenses \<subseteq> set (newest_first found)"
    unfolding assms(9) by (meson set_take_subset set_drop_subset subset_trans)
  also have "\<dots> = set found" by (simp add: newest_first_def)
  finally have sub: "set expenses \<subseteq> set found" .
  from r s sub show ?thesis
    by (simp add: newest_first_sorted newest_first_mset assms(9))
qed

theorem listing_page_witness:
  "(role manager = ''Manager'' \<or> role manager = ''Finance'') \<and> \<not> find_throws P0
   \<and> list_route P0 [e1, e3, e4] manager \<lparr>q_status = NoStatus, q_page = Some 2, q_limit = Some 2\<rparr>
       = ((200, Page [e1] (Some 2) (QueryString 2) 3), [e1, e3, e4])
   \<and> newest_first [e1, e3, e4] = [e3, e4, e1]
   \<and> list_route P0 [e1, e3, e4] finance
        \<lparr>q_status = StatusText ''Approved'', q_page = None, q_limit = None\<rparr>
       = ((200, Page [e4] (Some 1) (Number 1) 1), [e1, e3, e4])"
proof -
  have f: "filter (\<lambda>e. case Some ''Approved'' of None \<Rightarrow> True
                        | Some s \<Rightarrow> s = [] \<or> status e = s) [e1, e3, e4] = [e4]"
    by (simp add: e1_def e3_def e4_def)
  have c: "\<lceil>real 3 / real_of_int 2\<rceil> = 2" "\<lceil>real (Suc 0) / real_of_int 10\<rceil> = 1"
    by (simp_all add: ceiling_eq_iff)
  have r: "role manager = ''Manager'' \<or> role manager = ''Finance''"
          "role finance = ''Manager'' \<or> role finance = ''Finance''" "\<not> find_throws P0"
    by (simp_all add: manager_def finance_def P0_simps)
  from listing_page
         [where u = manager and P = P0 and st = None
            and q = "\<lparr>q_status = NoStatus, q_page = Some 2, q_limit = Some 2\<rparr>"
            and db = "[e1, e3, e4]" and page = 2 and limit = 2 and found = "[e1, e3, e4]"
            and expenses = "[e1]"]
    listing_page
         [where u = finance and P = P0 and st = "Some ''Approved''"
            and q = "\<lparr>q_status = StatusText ''Approved'', q_page = None, q_limit = None\<rparr>"
            and db = "[e1, e3, e4]" and page = 1 and limit = 10 and found = "[e4]"
            and expenses = "[e4]"]
    newest_first_examples f c r
  show ?thesis by simp
qed

section \<open>Properties of runs of the exposed operations\<close>

lemma submit_route_store:
  "snd (submit_route P db u b fl) = db \<or> (\<exists>e. snd (submit_route P db u b fl) = db @ [e])"
  by (auto simp: submit_route_def submit_handler_def Let_def split: option.splits sum.splits)

lemma read_routes_store:
  "snd (my_expenses_route P db u) = db" "snd (list_route P db u q) = db"
  "snd (get_expense_route P db u i) = db" "snd (download_invoice_route P db u i) = db"
  by (auto simp: my_expenses_route_def list_route_def list_handler_def Let_def
      get_expense_route_def download_invoice_route_def split: option.splits sum.splits)

text \<open>
  A review leaves an expense as it is, or it is a review of that expense, by an
  identifier that casts to the identifier of the expense, and gives it a review status.
\<close>

lemma update_status_step:
  assumes "findById db i = Some e"
  shows "\<exists>e'. findById (snd (update_status_route P db u j b)) i = Some e'
           \<and> (e' = e \<or> (castObjectId P j = Some i \<and> status e' \<in> set review_statuses))"
  using update_status_route_store [of P db u j b]
proof
  assume "snd (update_status_route P db u j b) = db"
  with assms show ?thesis by simp
next
  assume "\<exists>e0 d. Expense_findById P db j = Inr (Some e0)
         \<and> validationResult (review_chains b) = []
         \<and> apply_review P u (review_sanitize b) e0 = Some d
         \<and> snd (update_status_route P db u j b) = save db (stamp P e0 d)"
  then obtain e0 d where l: "Expense_findById P db j = Inr (Some e0)"
    and v: "validationResult (review_chains b) = []"
    and d: "apply_review P u (review_sanitize b) e0 = Some d"
    and s: "snd (update_status_route P db u j b) = save db (stamp P e0 d)"
    by blast
  from l obtain oid where c: "castObjectId P j = Some oid" and f: "findById db oid = Some e0"
    by (auto simp: Expense_findById_Inr)
  from f have "eid e0 = oid" by (simp add: findById_Some_eid)
  with d have id: "eid (stamp P e0 d) = oid" by (simp add: eid_stamp eid_apply_review)
  show ?thesis
  proof (cases "oid = i")
    case True
    with f id have "findById (save db (stamp P e0 d)) i = Some (stamp P e0 d)"
      by (simp add: findById_save_same)
    moreover from d obtain t where t: "req_status b = Text t" and "status d = t"
      by (auto simp: apply_review_eq req_status_sanitize reviewed_sets)
    then have "status (stamp P e0 d) \<in> set review_statuses"
      using v by (simp add: stamp_fields review_chains_pass status_results_Text)
    ultimately show ?thesis using s c True by simp
  next
    case False
    with id have "findById (save db (stamp P e0 d)) i = findById db i"
      by (simp add: findById_save_other)
    with s assms show ?thesis by simp
  qed
qed

lemma handle_step:
  assumes "findById db i = Some e"
  shows "\<exists>e'. findById (snd (handle P db u r)) i = Some e'
           \<and> (e' = e \<or> ((\<exists>j b. r = UpdateStatus j b \<and> castObjectId P j = Some i)
                          \<and> status e' \<in> set review_statuses))"
proof (cases r)
  case (Submit b fl)
  with assms submit_route_store [of P db u b fl] show ?thesis
    by (auto simp: findById_append)
next
  case (UpdateStatus j b)
  with update_status_step [OF assms, of P u j b] show ?thesis by auto
qed (use assms in \<open>simp_all add: read_routes_store\<close>)

lemma run_not_pending:
  "findById db i = Some e \<Longrightarrow> status e \<noteq> ''Pending'' \<Longrightarrow>
   \<exists>e'. findById (run db calls) i = Some e' \<and> status e' \<noteq> ''Pending''"
proof (induction calls arbitrary: db e)
  case Nil
  then show ?case by simp
next
  case (Cons c calls)
  obtain P u r where c: "c = (P, u, r)" by (cases c)
  from handle_step [OF Cons.prems(1), of P u r] obtain e'
    where f: "findById (snd (handle P db u r)) i = Some e'"
      and s: "e' = e \<or> status e' \<in> set review_statuses" by blast
  from s Cons.prems(2) have "status e' \<noteq> ''Pending''"
    using Pending_not_review by auto
  from Cons.IH [OF f this] c show ?case by simp
qed

text \<open>
  C5. An expense in the store whose status is not Pending is still in the store, with a
  status that is not Pending, after any run of calls to the six routes, by any users
  and on any platforms. In one call, an expense in the store stays in the store, and its
  status changes only when the call is a status review of that expense, and then to one
  of Approved, Rejected, Under Review; Pending is none of these.
\<close>

theorem status_never_back_to_pending:
  "(\<forall>e. findById db i = Some e \<and> status e \<noteq> ''Pending'' \<longrightarrow>
      (\<exists>e'. findById (run db calls) i = Some e' \<and> status e' \<noteq> ''Pending''))
   \<and> (\<forall>e. findById db i = Some e \<longrightarrow>
      (\<exists>e'. findById (snd (handle P db u r)) i = Some e'
         \<and> (status e' \<noteq> status e \<longrightarrow>
              (\<exists>j b. r = UpdateStatus j b \<and> castObjectId P j = Some i)
              \<and> status e' \<in> set review_statuses)))
   \<and> ''Pending'' \<notin> set review_statuses"
proof (intro conjI allI impI)
  fix e assume "findById db i = Some e \<and> status e \<noteq> ''Pending''"
  then show "\<exists>e'. findById (run db calls) i = Some e' \<and> status e' \<noteq> ''Pending''"
    using run_not_pending by blast
next
  fix e assume "findById db i = Some e"
  from handle_step [OF this, of P u r]
  show "\<exists>e'. findById (snd (handle P db u r)) i = Some e'
         \<and> (status e' \<noteq> status e \<longrightarrow>
              (\<exists>j b. r = UpdateStatus j b \<and> castObjectId P j = Some i)
              \<and> status e' \<in> set review_statuses)"
    by auto
next
  show "''Pending'' \<notin> set review_statuses" by (rule Pending_not_review)
qed

theorem status_never_back_to_pending_witness:
  "findById [e1_under_review] e1_id = Some e1_under_review
   \<and> status e1_under_review \<noteq> ''Pending''
   \<and> map_option status
        (findById
           (run [e1_under_review]
              [(P0, manager, UpdateStatus e1_id
                               \<lparr>req_status = Text ''Pending'', req_reviewComments = None\<rparr>),
               (P0, alice, Submit body0 (Some file0)),
               (P0, finance, UpdateStatus e1_id
                               \<lparr>req_status = Text ''Approved'', req_reviewComments = None\<rparr>)])
           e1_id)
      = Some ''Approved''
   \<and> findById [e1] e1_id = Some e1 \<and> status e1 = ''Pending''
   \<and> map_option status
        (findById
           (snd (handle P0 [e1] manager
                   (UpdateStatus e1_id
                      \<lparr>req_status = Text ''Under Review'', req_reviewComments = None\<rparr>)))
           e1_id)
      = Some ''Under Review''
   \<and> ''Under Review'' \<in> set review_statuses"
proof -
  let ?calls = "[(P0, manager, UpdateStatus e1_id
                               \<lparr>req_status = Text ''Pending'', req_reviewComments = None\<rparr>),
               (P0, alice, Submit body0 (Some file0)),
               (P0, finance, UpdateStatus e1_id
                               \<lparr>req_status = Text ''Approved'', req_reviewComments = None\<rparr>)]"
  have a: "findById [e1_under_review] e1_id = Some e1_under_review"
    "status e1_under_review \<noteq> ''Pending''" "findById [e1] e1_id = Some e1"
    "status e1 = ''Pending''" "''Under Review'' \<in> set review_statuses"
    by (simp_all add: findById_def e1_under_review_def e1_def review_statuses_def)
  have s1: "snd (handle P0 [e1_under_review] manager
               (UpdateStatus e1_id \<lparr>req_status = Text ''Pending'', req_reviewComments = None\<rparr>))
            = [e1_under_review]"
    by (simp add: update_status_route_def authorize_def manager_def review_handler_def
        validationResult_def review_chains_def status_results_def isIn_def review_statuses_def)
  have s2: "snd (handle P0 [e1_under_review] alice (Submit body0 (Some file0)))
            = [e1_under_review, e2]"
    by (simp add: submit_route_def authorize_def alice_def submit_handler_def validationResult_def
        submit_chains_def body0_def isLength_def isIn_def categories_def notEmpty_def
        vendor_name_def toString_def P0_simps P0_submit_simps trim_simps submit_sanitize_def
        parse_vendor_def Expense_create_def schema_doc_def submit_input_def file0_def
        currencies_def findById_def e1_under_review_def e1_def e2_def)
  have s3: "map_option status
              (findById (snd (handle P0 [e1_under_review, e2] finance
                 (UpdateStatus e1_id
                    \<lparr>req_status = Text ''Approved'', req_reviewComments = None\<rparr>))) e1_id)
            = Some ''Approved''"
    by (simp add: update_status_route_def authorize_def finance_def review_handler_def
        validationResult_def review_chains_def status_results_def isIn_def review_statuses_def
        Expense_findById_def P0_simps hex24_simps findById_def e1_under_review_def e1_def e2_def
        apply_review_def reviewed_def review_sanitize_def save_def stamp_def)
  have s4: "map_option status
        (findById
           (snd (handle P0 [e1] manager
                   (UpdateStatus e1_id
                      \<lparr>req_status = Text ''Under Review'', req_reviewComments = None\<rparr>)))
           e1_id)
      = Some ''Under Review''"
    by (simp add: update_status_route_def authorize_def manager_def review_handler_def
        validationResult_def review_chains_def status_results_def isIn_def review_statuses_def
        Expense_findById_def P0_simps hex24_simps findById_def e1_def apply_review_def
        reviewed_def review_sanitize_def save_def stamp_def)
  have r: "run [e1_under_review] ?calls
           = snd (handle P0 [e1_under_review, e2] finance
                 (UpdateStatus e1_id
                    \<lparr>req_status = Text ''Approved'', req_reviewComments = None\<rparr>))"
    using s1 s2 by simp
  from status_never_back_to_pending
         [where db = "[e1_under_review]" and i = e1_id and calls = ?calls
            and P = P0 and u = alice and r = "Submit body0 (Some file0)"]
    status_never_back_to_pending
         [where db = "[e1]" and i = e1_id and calls = "[]" and P = P0 and u = manager
            and r = "UpdateStatus e1_id
                       \<lparr>req_status = Text ''Under Review'', req_reviewComments = None\<rparr>"]
    a s3 s4 r
  show ?thesis by simp
qed

end
